theory Spec2Isabelle
  imports Complex_Main "HOL-Library.Word" "HOL-Library.AList"
begin

unbundle bit_operations_syntax

section \<open>Values of the host language\<close>

text \<open>
  The pipeline of \<^verbatim>\<open>src/lib/enhanced-metadata-extractor.ts\<close> runs in a browser. A string
  of the program is a \<^typ>\<open>string\<close> here, so file names, MIME types and messages range
  over code units below 256; a text decoded from a buffer is a list of UTF-16 code units
  (\<open>nat list\<close>), since it may hold any code point. A thrown value is either an
  \<^verbatim>\<open>Error\<close> with its message or anything else, which is all that
  \<^verbatim>\<open>error instanceof Error ? error.message : 'Unknown error'\<close> looks at.
\<close>

type_synonym byte = "8 word"

type_synonym utf16 = "nat list"

datatype thrown = Error string | NonError

text \<open>
  The state a promise ends in. \<open>Pending\<close> is the promise that never settles: the
  image and video extractors wait for a platform event with no timeout.
\<close>

datatype 'a outcome = Resolved 'a | Rejected thrown | Pending

definition await :: "'a outcome \<Rightarrow> ('a \<Rightarrow> 'b outcome) \<Rightarrow> 'b outcome" where
  "await p k = (case p of Resolved x \<Rightarrow> k x | Rejected e \<Rightarrow> Rejected e | Pending \<Rightarrow> Pending)"

definition tryCatch :: "'a outcome \<Rightarrow> (thrown \<Rightarrow> 'a outcome) \<Rightarrow> 'a outcome" where
  "tryCatch body handler =
     (case body of Resolved x \<Rightarrow> Resolved x | Rejected e \<Rightarrow> handler e | Pending \<Rightarrow> Pending)"

definition settle :: "thrown + 'a \<Rightarrow> 'a outcome" where
  "settle r = (case r of Inl e \<Rightarrow> Rejected e | Inr x \<Rightarrow> Resolved x)"

text \<open>
  Numbers are IEEE doubles. The finite ones are rationals; the operations of the source
  whose result depends on rounding or printing a double are fields of the platform
  record below.
\<close>

datatype jsnum = Finite rat | NaN | PosInfinity | NegInfinity

datatype jsval =
    Undefined
  | Null
  | Bool bool
  | Num jsnum
  | Str string
  | DateV int
  | Buf "byte list"
  | Arr "jsval list"
  | Obj "(string \<times> jsval) list"

type_synonym js_object = "(string \<times> jsval) list"

definition num :: "nat \<Rightarrow> jsval" where
  "num n = Num (Finite (of_nat n))"

text \<open>
  An object literal \<^verbatim>\<open>{ ...base, k1: v1, k2: v2 }\<close>: the properties of \<open>base\<close> in
  their order, then each \<open>k: v\<close> in turn, replacing the value of a key already there and
  appending a new key.
\<close>

definition spread :: "js_object \<Rightarrow> (string \<times> jsval) list \<Rightarrow> js_object" where
  "spread base props = fold (\<lambda>(k, v). AList.update k v) props base"

definition getProp :: "js_object \<Rightarrow> string \<Rightarrow> jsval" where
  "getProp obj k = (case map_of obj k of None \<Rightarrow> Undefined | Some v \<Rightarrow> v)"

fun truthy :: "jsval \<Rightarrow> bool" where
  "truthy Undefined = False"
| "truthy Null = False"
| "truthy (Bool b) = b"
| "truthy (Num (Finite q)) = (q \<noteq> 0)"
| "truthy (Num NaN) = False"
| "truthy (Num n) = True"
| "truthy (Str s) = (s \<noteq> [])"
| "truthy v = True"

definition orUndefined :: "string option \<Rightarrow> jsval" where
  "orUndefined s = (case s of None \<Rightarrow> Undefined | Some x \<Rightarrow> Str x)"

definition numOrUndefined :: "jsnum option \<Rightarrow> jsval" where
  "numOrUndefined n = (case n of None \<Rightarrow> Undefined | Some x \<Rightarrow> Num x)"

section \<open>Strings\<close>

definition startsWith :: "string \<Rightarrow> string \<Rightarrow> bool" where
  "startsWith s p = (take (length p) s = p)"

text \<open>
  \<^verbatim>\<open>s.split(sep)\<close> for a one-unit separator, on either kind of string: the pieces
  between the separators, never an empty array.
\<close>

fun splitOn :: "'a \<Rightarrow> 'a list \<Rightarrow> 'a list \<Rightarrow> 'a list list" where
  "splitOn sep cur [] = [cur]"
| "splitOn sep cur (c # cs) =
     (if c = sep then cur # splitOn sep [] cs else splitOn sep (cur @ [c]) cs)"

definition split :: "'a \<Rightarrow> 'a list \<Rightarrow> 'a list list" where
  "split sep s = splitOn sep [] s"

text \<open>\<^verbatim>\<open>xs.pop()\<close>: the last element, \<^verbatim>\<open>undefined\<close> on an empty array.\<close>

definition pop :: "'a list \<Rightarrow> 'a option" where
  "pop xs = (if xs = [] then None else Some (last xs))"

text \<open>
  \<^verbatim>\<open>toLowerCase\<close> on code units below 256: the letters A to Z and the Latin-1
  capitals C0 to DE, the multiplication sign D7 apart, move up by 32.
\<close>

definition lowerChar :: "char \<Rightarrow> char" where
  "lowerChar c =
     (let n = (of_char c :: nat)
      in if (65 \<le> n \<and> n \<le> 90) \<or> (192 \<le> n \<and> n \<le> 222 \<and> n \<noteq> 215)
         then char_of (n + 32) else c)"

definition toLowerCase :: "string \<Rightarrow> string" where
  "toLowerCase s = map lowerChar s"

text \<open>\<^verbatim>\<open>filename.split('.').pop()?.toLowerCase() || ''\<close>\<close>

definition extensionOf :: "string \<Rightarrow> string" where
  "extensionOf filename =
     (case pop (split (CHR ''.'') filename) of
        None \<Rightarrow> []
      | Some s \<Rightarrow> (if toLowerCase s = [] then [] else toLowerCase s))"

text \<open>\<^verbatim>\<open>s.includes(sub)\<close>\<close>

fun stringIncludes :: "'a list \<Rightarrow> 'a list \<Rightarrow> bool" where
  "stringIncludes [] sub = (sub = [])"
| "stringIncludes (x # xs) sub = (take (length sub) (x # xs) = sub \<or> stringIncludes xs sub)"

text \<open>\<^verbatim>\<open>n.toString(16)\<close> and \<^verbatim>\<open>n.toString()\<close> of a natural number.\<close>

definition digitChar :: "nat \<Rightarrow> char" where
  "digitChar d = (if d < 10 then char_of (48 + d) else char_of (87 + d))"

function toStringRadix :: "nat \<Rightarrow> nat \<Rightarrow> string" where
  "toStringRadix r n =
     (if r < 2 \<or> n < r then [digitChar n]
      else toStringRadix r (n div r) @ [digitChar (n mod r)])"
  by pat_completeness auto
termination
  by (relation "measure (\<lambda>(r, n). n)") auto

declare toStringRadix.simps [simp del]

definition padStart :: "nat \<Rightarrow> char \<Rightarrow> string \<Rightarrow> string" where
  "padStart n c s = replicate (n - length s) c @ s"

text \<open>\<^verbatim>\<open>toUpperCase\<close>, where the source applies it: to hexadecimal digits.\<close>

definition upperHex :: "char \<Rightarrow> char" where
  "upperHex c =
     (let n = (of_char c :: nat) in if 97 \<le> n \<and> n \<le> 122 then char_of (n - 32) else c)"

fun join :: "string \<Rightarrow> string list \<Rightarrow> string" where
  "join sep [] = []"
| "join sep [x] = x"
| "join sep (x # y # ys) = x @ sep @ join sep (y # ys)"

section \<open>Checksum and header dump\<close>

text \<open>
  The fallback of \<^verbatim>\<open>calculateChecksum\<close>:
  \<^verbatim>\<open>hash = ((hash << 5) - hash + uint8Array[i]) & 0xffffffff\<close> on 32-bit integers, then
  \<^verbatim>\<open>Math.abs(hash).toString(16).padStart(8, '0')\<close>.
\<close>

definition simpleHash :: "byte list \<Rightarrow> 32 word" where
  "simpleHash uint8Array =
     fold (\<lambda>b hash. (push_bit 5 hash - hash + ucast b) AND 0xffffffff) uint8Array 0"

definition hexOfBytes :: "byte list \<Rightarrow> string" where
  "hexOfBytes hashArray =
     concat (map (\<lambda>b. padStart 2 (CHR ''0'') (toStringRadix 16 (unat b))) hashArray)"

definition calculateChecksum :: "(byte list \<Rightarrow> thrown + byte list) \<Rightarrow> byte list \<Rightarrow> string" where
  "calculateChecksum digest buffer =
     (case digest buffer of
        Inr hashBuffer \<Rightarrow> hexOfBytes hashBuffer
      | Inl e \<Rightarrow> padStart 8 (CHR ''0'') (toStringRadix 16 (nat \<bar>sint (simpleHash buffer)\<bar>)))"

definition extractRawHeader :: "byte list \<Rightarrow> nat \<Rightarrow> string" where
  "extractRawHeader buffer len =
     join '' ''
       (map (\<lambda>b. map upperHex (padStart 2 (CHR ''0'') (toStringRadix 16 (unat b))))
          (take len buffer))"

section \<open>Text decoding\<close>

text \<open>
  \<^verbatim>\<open>new TextDecoder().decode(buffer)\<close>: the UTF-8 decoder of the Encoding Standard,
  not fatal (a malformed sequence gives U+FFFD and the offending byte is read again),
  with a leading byte order mark dropped. \<open>utf8Lead\<close> reads a byte when no sequence
  is open; the state is the code point so far, the continuation bytes still due and
  the bounds of the next one.
\<close>

definition utf8Lead :: "nat \<Rightarrow> nat list \<times> nat \<times> nat \<times> nat \<times> nat" where
  "utf8Lead b =
     (if b \<le> 0x7F then ([b], 0, 0, 0x80, 0xBF)
      else if 0xC2 \<le> b \<and> b \<le> 0xDF then ([], b mod 32, 1, 0x80, 0xBF)
      else if 0xE0 \<le> b \<and> b \<le> 0xEF
        then ([], b mod 16, 2, (if b = 0xE0 then 0xA0 else 0x80), (if b = 0xED then 0x9F else 0xBF))
      else if 0xF0 \<le> b \<and> b \<le> 0xF4
        then ([], b mod 8, 3, (if b = 0xF0 then 0x90 else 0x80), (if b = 0xF4 then 0x8F else 0xBF))
      else ([0xFFFD], 0, 0, 0x80, 0xBF))"

fun utf8Run :: "nat \<Rightarrow> nat \<Rightarrow> nat \<Rightarrow> nat \<Rightarrow> nat list \<Rightarrow> nat list" where
  "utf8Run cp needed lo hi [] = (if needed \<noteq> 0 then [0xFFFD] else [])"
| "utf8Run cp needed lo hi (b # bs) =
     (if needed = 0 then
        (case utf8Lead b of (out, cp', needed', lo', hi') \<Rightarrow> out @ utf8Run cp' needed' lo' hi' bs)
      else if b < lo \<or> hi < b then
        0xFFFD #
        (case utf8Lead b of (out, cp', needed', lo', hi') \<Rightarrow> out @ utf8Run cp' needed' lo' hi' bs)
      else if needed = 1 then (cp * 64 + b mod 64) # utf8Run 0 0 0x80 0xBF bs
      else utf8Run (cp * 64 + b mod 64) (needed - 1) 0x80 0xBF bs)"

definition toUtf16 :: "nat \<Rightarrow> utf16" where
  "toUtf16 cp =
     (if cp < 0x10000 then [cp]
      else [0xD800 + (cp - 0x10000) div 1024, 0xDC00 + (cp - 0x10000) mod 1024])"

definition dropBom :: "nat list \<Rightarrow> nat list" where
  "dropBom cps = (case cps of [] \<Rightarrow> [] | c # rest \<Rightarrow> (if c = 0xFEFF then rest else c # rest))"

definition textDecode :: "byte list \<Rightarrow> utf16" where
  "textDecode buffer = concat (map toUtf16 (dropBom (utf8Run 0 0 0x80 0xBF (map unat buffer))))"

text \<open>The class \<^verbatim>\<open>\s\<close> of a regular expression, on code units.\<close>

definition isWhiteSpace :: "nat \<Rightarrow> bool" where
  "isWhiteSpace c =
     (c \<in> {0x09, 0x0A, 0x0B, 0x0C, 0x0D, 0x20, 0xA0, 0x1680, 0x2028, 0x2029, 0x202F,
            0x205F, 0x3000, 0xFEFF}
      \<or> (0x2000 \<le> c \<and> c \<le> 0x200A))"

text \<open>
  \<^verbatim>\<open>text.split(/\s+/)\<close>: the pieces between the maximal runs of white space, with an
  empty piece before a leading run and after a trailing one.
\<close>

function splitWhiteSpace :: "utf16 \<Rightarrow> utf16 \<Rightarrow> utf16 list" where
  "splitWhiteSpace cur [] = [cur]"
| "splitWhiteSpace cur (c # cs) =
     (if isWhiteSpace c then cur # splitWhiteSpace [] (dropWhile isWhiteSpace cs)
      else splitWhiteSpace (cur @ [c]) cs)"
  by pat_completeness auto
termination
  by (relation "measure (\<lambda>(cur, cs). length cs)")
     (auto simp: le_imp_less_Suc length_dropWhile_le)

definition utf8Bom :: "byte list" where
  "utf8Bom = [0xEF, 0xBB, 0xBF]"

definition lineEndingsOf :: "utf16 \<Rightarrow> string" where
  "lineEndingsOf txt =
     (if stringIncludes txt [0x0D, 0x0A] then ''CRLF (Windows)''
      else if stringIncludes txt [0x0A] then ''LF (Unix)''
      else if stringIncludes txt [0x0D] then ''CR (Mac)''
      else ''unknown'')"

section \<open>JPEG marker segments\<close>

text \<open>
  A \<^verbatim>\<open>DataView\<close> read outside the buffer throws a \<^verbatim>\<open>RangeError\<close> (the message is
  the engine's); multi-byte reads are big-endian.
\<close>

definition rangeError :: thrown where
  "rangeError = Error ''Offset is outside the bounds of the DataView''"

definition getUint8 :: "byte list \<Rightarrow> nat \<Rightarrow> thrown + nat" where
  "getUint8 view byteOffset =
     (if byteOffset + 1 \<le> length view then Inr (unat (view ! byteOffset)) else Inl rangeError)"

definition getUint16 :: "byte list \<Rightarrow> nat \<Rightarrow> thrown + 16 word" where
  "getUint16 view byteOffset =
     (if byteOffset + 2 \<le> length view
      then Inr (push_bit 8 (ucast (view ! byteOffset)) OR ucast (view ! (byteOffset + 1)))
      else Inl rangeError)"

definition arraySlice :: "'a list \<Rightarrow> nat \<Rightarrow> nat \<Rightarrow> 'a list" where
  "arraySlice buffer start stop = take (stop - start) (drop start buffer)"

definition andThen :: "thrown + 'a \<Rightarrow> ('a \<Rightarrow> thrown + 'b) \<Rightarrow> thrown + 'b" where
  "andThen r k = (case r of Inl e \<Rightarrow> Inl e | Inr x \<Rightarrow> k x)"

text \<open>The identifier \<^verbatim>\<open>'JFIF\0'\<close>.\<close>

definition jfifIdentifier :: utf16 where
  "jfifIdentifier = [0x4A, 0x46, 0x49, 0x46, 0x00]"

text \<open>The block assigned to \<^verbatim>\<open>result.jfif\<close> in an APP0 segment whose length field is at \<open>offset\<close>.\<close>

definition jfifBlock :: "byte list \<Rightarrow> nat \<Rightarrow> thrown + jsval" where
  "jfifBlock view offset =
     andThen (getUint8 view (offset + 7)) (\<lambda>majorVersion.
     andThen (getUint8 view (offset + 8)) (\<lambda>minorVersion.
     andThen (getUint8 view (offset + 9)) (\<lambda>units.
     andThen (getUint16 view (offset + 10)) (\<lambda>xDensity.
     andThen (getUint16 view (offset + 12)) (\<lambda>yDensity.
       Inr (Obj
         [(''version'',
             Str (toStringRadix 10 majorVersion @ ''.'' @
                  padStart 2 (CHR ''0'') (toStringRadix 10 minorVersion))),
          (''resolutionUnit'',
             Str (if units = 0 then ''None'' else if units = 1 then ''inches'' else ''cm'')),
          (''xResolution'', num (unat xDensity)),
          (''yResolution'', num (unat yDensity))]))))))"

text \<open>The block assigned to \<^verbatim>\<open>result.encoding\<close> in a SOF0 segment.\<close>

definition encodingBlock :: "byte list \<Rightarrow> nat \<Rightarrow> thrown + jsval" where
  "encodingBlock view offset =
     andThen (getUint8 view (offset + 2)) (\<lambda>precision.
     andThen (getUint8 view (offset + 7)) (\<lambda>components.
       Inr (Obj
         [(''process'', Str ''Baseline DCT, Huffman coding''),
          (''bitsPerSample'', num precision),
          (''colorComponents'', num components),
          (''subSampling'',
             (if components = 3 then Str ''YCbCr4:2:0 (2 2)'' else Undefined))])))"

text \<open>
  The \<^verbatim>\<open>while (offset < buffer.byteLength - 1)\<close> loop of \<^verbatim>\<open>analyzeJPEGStructure\<close>,
  inside its \<^verbatim>\<open>try\<close>. It returns \<^verbatim>\<open>result\<close> as it stands when the loop ends, breaks
  or throws, with the thrown value that the \<^verbatim>\<open>catch\<close> logs.
\<close>

function scanSegments :: "byte list \<Rightarrow> nat \<Rightarrow> js_object \<Rightarrow> js_object \<times> thrown option" where
  "scanSegments buffer offset result =
     (if \<not> offset + 1 < length buffer then (result, None)
      else case getUint16 buffer offset of
        Inl e \<Rightarrow> (result, Some e)
      | Inr marker \<Rightarrow>
          if (marker AND 0xFF00) \<noteq> 0xFF00 then (result, None)
          else
            let markerType = marker AND 0xFF; offset2 = offset + 2 in
            if markerType = 0xE0 then
              (case getUint16 buffer offset2 of
                 Inl e \<Rightarrow> (result, Some e)
               | Inr len \<Rightarrow>
                   if textDecode (arraySlice buffer (offset2 + 2) (offset2 + 7)) = jfifIdentifier
                   then (case jfifBlock buffer offset2 of
                           Inl e \<Rightarrow> (result, Some e)
                         | Inr block \<Rightarrow>
                             scanSegments buffer (offset2 + unat len)
                               (AList.update ''jfif'' block result))
                   else scanSegments buffer (offset2 + unat len) result)
            else if markerType = 0xC0 then
              (case getUint16 buffer offset2 of
                 Inl e \<Rightarrow> (result, Some e)
               | Inr len \<Rightarrow>
                   (case encodingBlock buffer offset2 of
                      Inl e \<Rightarrow> (result, Some e)
                    | Inr block \<Rightarrow>
                        scanSegments buffer (offset2 + unat len)
                          (AList.update ''encoding'' block result)))
            else
              (case getUint16 buffer offset2 of
                 Inl e \<Rightarrow> (result, Some e)
               | Inr len \<Rightarrow> scanSegments buffer (offset2 + unat len) result))"
  by pat_completeness auto
termination
  by (relation "measure (\<lambda>(buffer, offset, result). length buffer - offset)") auto

declare scanSegments.simps [simp del]

definition analyzeJPEGStructure :: "byte list \<Rightarrow> js_object" where
  "analyzeJPEGStructure buffer =
     (let result = [(''encoding'', Obj []), (''jfif'', Obj [])]
      in case getUint16 buffer 0 of
           Inl e \<Rightarrow> result
         | Inr soi \<Rightarrow> if soi \<noteq> 0xFFD8 then result else fst (scanSegments buffer 2 result))"

section \<open>Category classifier\<close>

datatype category =
  CatImage | CatVideo | CatAudio | CatDocument | CatArchive | CatText | CatOther

definition documentExts :: "string list" where
  "documentExts = [''pdf'', ''doc'', ''docx'', ''txt'', ''rtf'', ''odt'', ''pages'']"

definition archiveExts :: "string list" where
  "archiveExts = [''zip'', ''rar'', ''7z'', ''tar'', ''gz'', ''bz2'', ''xz'']"

definition imageExts :: "string list" where
  "imageExts = [''jpg'', ''jpeg'', ''png'', ''gif'', ''bmp'', ''webp'', ''svg'', ''tiff'', ''ico'']"

definition videoExts :: "string list" where
  "videoExts = [''mp4'', ''avi'', ''mov'', ''wmv'', ''flv'', ''webm'', ''mkv'', ''m4v'']"

definition audioExts :: "string list" where
  "audioExts = [''mp3'', ''wav'', ''flac'', ''aac'', ''ogg'', ''m4a'', ''wma'']"

definition textExts :: "string list" where
  "textExts = [''txt'', ''md'', ''json'', ''xml'', ''html'', ''css'', ''js'', ''ts'', ''py'',
               ''java'', ''cpp'', ''c'', ''h'']"

definition arrayIncludes :: "'a list \<Rightarrow> 'a \<Rightarrow> bool" where
  "arrayIncludes xs x = (x \<in> set xs)"

definition determineFileCategory :: "string \<Rightarrow> string \<Rightarrow> category" where
  "determineFileCategory mimeType filename =
     (if startsWith mimeType ''image/'' then CatImage
      else if startsWith mimeType ''video/'' then CatVideo
      else if startsWith mimeType ''audio/'' then CatAudio
      else if startsWith mimeType ''text/'' then CatText
      else let extension = extensionOf filename
           in if arrayIncludes documentExts extension then CatDocument
              else if arrayIncludes archiveExts extension then CatArchive
              else if arrayIncludes imageExts extension then CatImage
              else if arrayIncludes videoExts extension then CatVideo
              else if arrayIncludes audioExts extension then CatAudio
              else if arrayIncludes textExts extension then CatText
              else CatOther)"

section \<open>The file and the platform\<close>

text \<open>
  A \<^verbatim>\<open>File\<close>: its name, size, declared MIME type and time stamp, and what
  \<^verbatim>\<open>file.arrayBuffer()\<close> settles to.
\<close>

record File =
  file_name :: string
  file_size :: nat
  file_type :: string
  file_lastModified :: int
  file_arrayBuffer :: "thrown + byte list"

text \<open>The result of the content sniffer \<^verbatim>\<open>fileTypeFromBuffer\<close>, when it finds a signature.\<close>

record detected =
  mime :: string
  ext :: string

text \<open>
  What an \<^verbatim>\<open>Image\<close> or a \<^verbatim>\<open>video\<close> element answers once its source is set: the
  load event with the decoded sizes, the error event, or neither.
\<close>

datatype image_signal = ImageLoaded nat nat | ImageError | ImageSilent

datatype video_signal = VideoLoaded jsnum nat nat | VideoError | VideoSilent

text \<open>
  The tags \<^verbatim>\<open>extractEnhancedImageMetadata\<close> reads from the result of \<^verbatim>\<open>parseExif\<close>:
  a number where a formatter of the source takes a \<^verbatim>\<open>number\<close>, any value where the tag is
  only copied or tested.
\<close>

record exif_tags =
  Make :: jsval
  Model :: jsval
  Software :: jsval
  ISO :: jsval
  FNumber :: jsval
  ExposureTime :: "jsnum option"
  FocalLength :: jsval
  FocalLengthIn35mmFormat :: jsval
  Flash :: "jsnum option"
  WhiteBalance :: "jsnum option"
  MeteringMode :: "jsnum option"
  ExposureMode :: "jsnum option"
  SceneCaptureType :: "jsnum option"
  DateTime :: jsval
  DateTimeOriginal :: jsval
  DateTimeDigitized :: jsval
  GPSLatitude :: jsval
  GPSLongitude :: jsval
  GPSAltitude :: jsval
  Orientation :: jsval
  ColorSpace :: "jsnum option"
  ImageWidth :: jsval
  ImageHeight :: jsval
  XResolution :: jsval
  YResolution :: jsval
  ResolutionUnit :: "jsnum option"
  LensModel :: jsval
  LensMake :: jsval
  LensSerialNumber :: jsval
  BitsPerSample :: jsval
  Compression :: "jsnum option"

text \<open>The parts of the result of \<^verbatim>\<open>parseBuffer\<close> that \<^verbatim>\<open>extractEnhancedAudioMetadata\<close> reads.\<close>

record IPicture =
  pic_format :: string
  pic_data :: "byte list"
  pic_buffer :: "byte list"
  pic_type :: "string option"
  pic_description :: "string option"

datatype tag_entry = EntryString string | EntryObject js_object

record ICommonTagsResult =
  common_picture :: "IPicture list option"
  common_title :: jsval
  common_artist :: jsval
  common_album :: jsval
  common_albumartist :: jsval
  common_year :: jsval
  common_date :: jsval
  common_genre :: jsval
  common_track :: "(jsval \<times> jsval) option"
  common_disk :: "(jsval \<times> jsval) option"
  common_composer :: jsval
  common_conductor :: jsval
  common_lyricist :: jsval
  common_writer :: jsval
  common_publisher :: jsval
  common_label :: jsval
  common_copyright :: jsval
  common_encodedby :: jsval
  common_comment :: "tag_entry list option"
  common_lyrics :: "tag_entry list option"
  common_isrc :: jsval
  common_barcode :: jsval
  common_catalognumber :: jsval
  common_musicbrainz_artistid :: jsval
  common_musicbrainz_albumid :: jsval
  common_musicbrainz_trackid :: jsval
  common_musicbrainz_releasegroupid :: jsval

record IFormat =
  format_container :: jsval
  format_codec :: "string option"
  format_lossless :: jsval
  format_numberOfChannels :: jsval
  format_bitsPerSample :: jsval
  format_sampleRate :: jsval
  format_duration :: jsval
  format_bitrate :: jsval
  format_codecProfile :: jsval

record INativeTags =
  native_ID3v2 :: "jsval list option"
  native_ID3v1 :: "jsval list option"

record IAudioMetadata =
  audio_common :: ICommonTagsResult
  audio_format :: IFormat
  audio_native :: INativeTags

text \<open>
  What \<^verbatim>\<open>PDFDocument.load\<close> and the getters of the loaded document give; a getter that
  throws lands in the same \<^verbatim>\<open>catch\<close> as a failed load.
\<close>

record pdf_info =
  pdf_pageCount :: nat
  pdf_title :: "string option"
  pdf_author :: "string option"
  pdf_subject :: "string option"
  pdf_creator :: "string option"
  pdf_producer :: "string option"
  pdf_creationDate :: "int option"
  pdf_modificationDate :: "int option"
  pdf_keywords :: "string option"

text \<open>
  The collaborators of one analysis. \<open>previewURL\<close> and \<open>albumArtURL\<close> are the handles
  that \<^verbatim>\<open>URL.createObjectURL\<close> mints for the file and for the first embedded picture.
  The last three fields are the arithmetic on doubles that the source leaves to the engine:
  \<^verbatim>\<open>`${x}`\<close>, \<^verbatim>\<open>Math.round(1 / x)\<close> and
  \<^verbatim>\<open>Number(((w * h) / 1_000_000).toFixed(1))\<close>.
\<close>

record platform =
  digestMD5 :: "byte list \<Rightarrow> thrown + byte list"
  fileTypeFromBuffer :: "byte list \<Rightarrow> thrown + detected option"
  imageSignal :: "File \<Rightarrow> image_signal"
  parseExif :: "byte list \<Rightarrow> thrown + exif_tags option"
  parseBuffer :: "byte list \<Rightarrow> string \<Rightarrow> nat \<Rightarrow> thrown + IAudioMetadata"
  videoSignal :: "File \<Rightarrow> video_signal"
  loadPdf :: "byte list \<Rightarrow> thrown + pdf_info"
  previewURL :: string
  albumArtURL :: string
  numberToString :: "jsnum \<Rightarrow> string"
  roundReciprocal :: "jsnum \<Rightarrow> jsnum"
  megapixelsOf :: "nat \<Rightarrow> nat \<Rightarrow> jsnum"

section \<open>Formatting EXIF values\<close>

definition truthyNum :: "jsnum option \<Rightarrow> bool" where
  "truthyNum n = (case n of None \<Rightarrow> False | Some x \<Rightarrow> truthy (Num x))"

text \<open>\<^verbatim>\<open>x >= 1\<close>\<close>

definition geOne :: "jsnum \<Rightarrow> bool" where
  "geOne x = (case x of Finite q \<Rightarrow> 1 \<le> q | PosInfinity \<Rightarrow> True | _ \<Rightarrow> False)"

text \<open>The conversion to a 32-bit integer that \<^verbatim>\<open>&\<close> applies to its operands.\<close>

definition toInt32 :: "jsnum \<Rightarrow> 32 word" where
  "toInt32 x =
     (case x of Finite q \<Rightarrow> word_of_int (if q < 0 then - \<lfloor>- q\<rfloor> else \<lfloor>q\<rfloor>) | _ \<Rightarrow> 0)"

text \<open>\<^verbatim>\<open>table[n]\<close> for a table keyed by numbers.\<close>

definition lookupNumber :: "(rat \<times> string) list \<Rightarrow> jsnum \<Rightarrow> string option" where
  "lookupNumber table n = (case n of Finite q \<Rightarrow> map_of table q | _ \<Rightarrow> None)"

definition formatExposureTime :: "platform \<Rightarrow> jsnum \<Rightarrow> string" where
  "formatExposureTime P exposureTime =
     (if geOne exposureTime then numberToString P exposureTime @ ''s''
      else ''1/'' @ numberToString P (roundReciprocal P exposureTime) @ ''s'')"

definition formatFlash :: "jsnum option \<Rightarrow> jsval" where
  "formatFlash flash =
     (case flash of
        None \<Rightarrow> Undefined
      | Some f \<Rightarrow>
          (let flashFired = toInt32 f AND 0x01
           in if flashFired \<noteq> 0 then Str ''Flash fired'' else Str ''Flash did not fire''))"

definition formatWhiteBalance :: "jsnum option \<Rightarrow> jsval" where
  "formatWhiteBalance wb =
     (case wb of None \<Rightarrow> Undefined
      | Some w \<Rightarrow> (if w = Finite 0 then Str ''Auto'' else Str ''Manual''))"

definition formatMeteringMode :: "jsnum option \<Rightarrow> jsval" where
  "formatMeteringMode mode =
     (let modes = [(1, ''Average''), (2, ''Center-weighted average''), (3, ''Spot''),
                   (4, ''Multi-spot''), (5, ''Pattern''), (6, ''Partial'')]
      in if truthyNum mode then orUndefined (lookupNumber modes (the mode)) else Undefined)"

definition formatExposureMode :: "jsnum option \<Rightarrow> jsval" where
  "formatExposureMode mode =
     (let modes = [(0, ''Auto exposure''), (1, ''Manual exposure''), (2, ''Auto bracket'')]
      in case mode of None \<Rightarrow> Undefined | Some m \<Rightarrow> orUndefined (lookupNumber modes m))"

definition formatSceneType :: "jsnum option \<Rightarrow> jsval" where
  "formatSceneType scene =
     (let scenes = [(0, ''Standard''), (1, ''Landscape''), (2, ''Portrait''), (3, ''Night scene'')]
      in case scene of None \<Rightarrow> Undefined | Some c \<Rightarrow> orUndefined (lookupNumber scenes c))"

definition formatColorSpace :: "platform \<Rightarrow> jsnum option \<Rightarrow> jsval" where
  "formatColorSpace P colorSpace =
     (if colorSpace = Some (Finite 1) then Str ''sRGB''
      else if colorSpace = Some (Finite 65535) then Str ''Uncalibrated''
      else if truthyNum colorSpace then Str (''ColorSpace '' @ numberToString P (the colorSpace))
      else Undefined)"

definition formatResolutionUnit :: "jsnum option \<Rightarrow> jsval" where
  "formatResolutionUnit unit =
     (let units = [(1, ''None''), (2, ''inches''), (3, ''cm'')]
      in if truthyNum unit then orUndefined (lookupNumber units (the unit)) else Undefined)"

definition formatCompression :: "jsnum option \<Rightarrow> jsval" where
  "formatCompression compression =
     (let compressions = [(1, ''Uncompressed''), (6, ''JPEG'')]
      in if truthyNum compression then orUndefined (lookupNumber compressions (the compression))
         else Undefined)"

text \<open>The object \<^verbatim>\<open>processedExif\<close> of \<^verbatim>\<open>extractEnhancedImageMetadata\<close>, when there are tags.\<close>

definition processedExif :: "platform \<Rightarrow> exif_tags \<Rightarrow> nat \<Rightarrow> nat \<Rightarrow> js_object" where
  "processedExif P exifData width height =
     [(''make'', Make exifData),
      (''model'', Model exifData),
      (''software'', Software exifData),
      (''iso'', ISO exifData),
      (''fNumber'', FNumber exifData),
      (''exposureTime'',
         (if truthyNum (ExposureTime exifData)
          then Str (formatExposureTime P (the (ExposureTime exifData))) else Undefined)),
      (''focalLength'', FocalLength exifData),
      (''focalLengthIn35mm'', FocalLengthIn35mmFormat exifData),
      (''flash'', formatFlash (Flash exifData)),
      (''whiteBalance'', formatWhiteBalance (WhiteBalance exifData)),
      (''meteringMode'', formatMeteringMode (MeteringMode exifData)),
      (''exposureMode'', formatExposureMode (ExposureMode exifData)),
      (''sceneType'', formatSceneType (SceneCaptureType exifData)),
      (''dateTime'', DateTime exifData),
      (''dateTimeOriginal'', DateTimeOriginal exifData),
      (''dateTimeDigitized'', DateTimeDigitized exifData),
      (''gps'',
         (if truthy (GPSLatitude exifData) \<and> truthy (GPSLongitude exifData)
          then Obj [(''latitude'', GPSLatitude exifData),
                    (''longitude'', GPSLongitude exifData),
                    (''altitude'', GPSAltitude exifData)]
          else Undefined)),
      (''orientation'', Orientation exifData),
      (''colorSpace'', formatColorSpace P (ColorSpace exifData)),
      (''pixelXDimension'',
         (if truthy (ImageWidth exifData) then ImageWidth exifData else num width)),
      (''pixelYDimension'',
         (if truthy (ImageHeight exifData) then ImageHeight exifData else num height)),
      (''xResolution'', XResolution exifData),
      (''yResolution'', YResolution exifData),
      (''resolutionUnit'', formatResolutionUnit (ResolutionUnit exifData)),
      (''lensModel'', LensModel exifData),
      (''lensMake'', LensMake exifData),
      (''lensSerialNumber'', LensSerialNumber exifData)]"

section \<open>Format extractors\<close>

text \<open>
  Every extractor is an \<^verbatim>\<open>async\<close> function whose whole body is one
  \<^verbatim>\<open>try { ... } catch (error) { console.warn(...); return base }\<close>.
\<close>

definition extractEnhancedImageMetadata ::
  "platform \<Rightarrow> File \<Rightarrow> byte list \<Rightarrow> js_object \<Rightarrow> js_object outcome" where
  "extractEnhancedImageMetadata P file buffer base =
     tryCatch
       (await
          (case imageSignal P file of
             ImageLoaded w h \<Rightarrow> Resolved (w, h)
           | ImageError \<Rightarrow> Resolved (0, 0)
           | ImageSilent \<Rightarrow> Pending)
          (\<lambda>(width, height).
        let megapixels =
              (if width \<noteq> 0 \<and> height \<noteq> 0 then Num (megapixelsOf P width height)
               else Undefined)
        in await (settle (parseExif P buffer)) (\<lambda>exifData.
        let jpegInfo =
              (if file_type file = ''image/jpeg'' \<or> getProp base ''extension'' = Str ''jpg''
                  \<or> getProp base ''extension'' = Str ''jpeg''
               then analyzeJPEGStructure buffer else [])
        in Resolved (spread base
             [(''dimensions'', Obj [(''width'', num width), (''height'', num height)]),
              (''megapixels'', megapixels),
              (''exif'',
                 (case exifData of None \<Rightarrow> Undefined
                  | Some tags \<Rightarrow> Obj (processedExif P tags width height))),
              (''colorSpace'', formatColorSpace P (Option.bind exifData ColorSpace)),
              (''bitsPerSample'',
                 (case exifData of None \<Rightarrow> Undefined | Some tags \<Rightarrow> BitsPerSample tags)),
              (''compression'', formatCompression (Option.bind exifData Compression)),
              (''encoding'', getProp jpegInfo ''encoding''),
              (''jfif'', getProp jpegInfo ''jfif'')]))))
       (\<lambda>error. Resolved base)"

text \<open>\<^verbatim>\<open>v?.[0]\<close>\<close>

definition firstOf :: "jsval \<Rightarrow> jsval" where
  "firstOf v =
     (case v of
        Arr xs \<Rightarrow> (case xs of [] \<Rightarrow> Undefined | x # rest \<Rightarrow> x)
      | Str cs \<Rightarrow> (case cs of [] \<Rightarrow> Undefined | c # rest \<Rightarrow> Str [c])
      | Obj props \<Rightarrow> getProp props ''0''
      | _ \<Rightarrow> Undefined)"

text \<open>\<^verbatim>\<open>typeof c === 'string' ? c : c.text || ''\<close>\<close>

definition entryText :: "tag_entry \<Rightarrow> jsval" where
  "entryText c =
     (case c of
        EntryString s \<Rightarrow> Str s
      | EntryObject props \<Rightarrow>
          (if truthy (getProp props ''text'') then getProp props ''text'' else Str []))"

text \<open>\<^verbatim>\<open>t?.no ? { no: t.no, of: t.of || undefined } : undefined\<close> for a track or disk pair.\<close>

definition numberOfTotal :: "(jsval \<times> jsval) option \<Rightarrow> jsval" where
  "numberOfTotal t =
     (case t of
        None \<Rightarrow> Undefined
      | Some (no, ofTotal) \<Rightarrow>
          (if truthy no
           then Obj [(''no'', no), (''of'', (if truthy ofTotal then ofTotal else Undefined))]
           else Undefined))"

definition orCover :: "string option \<Rightarrow> string" where
  "orCover s = (case s of None \<Rightarrow> ''Cover'' | Some x \<Rightarrow> (if x = [] then ''Cover'' else x))"

definition layerIII :: "string option \<Rightarrow> bool" where
  "layerIII codec = (case codec of None \<Rightarrow> False | Some c \<Rightarrow> stringIncludes c ''Layer III'')"

definition extractEnhancedAudioMetadata ::
  "platform \<Rightarrow> File \<Rightarrow> byte list \<Rightarrow> js_object \<Rightarrow> (js_object \<times> string option) outcome" where
  "extractEnhancedAudioMetadata P file buffer base =
     tryCatch
       (await (settle (parseBuffer P buffer (file_type file) (file_size file))) (\<lambda>parsed.
        let common = audio_common parsed;
            format = audio_format parsed;
            native = audio_native parsed;
            pictures = (case common_picture common of None \<Rightarrow> [] | Some ps \<Rightarrow> ps);
            albumArt = (if pictures \<noteq> [] then Some (albumArtURL P) else None);
            pictureInfo =
              map (\<lambda>pic. Obj [(''mimeType'', Str (pic_format pic)),
                             (''type'', Str (orCover (pic_type pic))),
                             (''description'', Str (orCover (pic_description pic))),
                             (''size'', num (length (pic_data pic)))]) pictures;
            mpegInfo =
              (if format_container format = Str ''MPEG'' \<or> file_type file = ''audio/mpeg''
               then [(''version'', Str (if layerIII (format_codec format) then ''MPEG-1'' else ''MPEG'')),
                     (''layer'', Str (if layerIII (format_codec format) then ''3'' else ''Unknown'')),
                     (''channelMode'',
                        Str (if format_numberOfChannels format = num 2 then ''Stereo'' else ''Mono'')),
                     (''emphasis'', Str ''None''),
                     (''copyrightFlag'', Bool False),
                     (''originalMedia'', Bool True)]
               else []);
            id3Info =
              (if native_ID3v2 native \<noteq> None \<or> native_ID3v1 native \<noteq> None
               then (if truthy (case native_ID3v2 native of None \<Rightarrow> Undefined
                                | Some tags \<Rightarrow> firstOf (Arr tags))
                     then [(''version'', Str ''2.3''), (''size'', num 0), (''flags'', Arr [])]
                     else [])
               else []);
            audioMetadata = spread base
              [(''duration'', format_duration format),
               (''bitrate'', format_bitrate format),
               (''sampleRate'', format_sampleRate format),
               (''channels'', format_numberOfChannels format),
               (''codecProfile'', format_codecProfile format),
               (''title'', common_title common),
               (''artist'', common_artist common),
               (''album'', common_album common),
               (''albumArtist'', common_albumartist common),
               (''year'', common_year common),
               (''date'', common_date common),
               (''genre'', common_genre common),
               (''track'', numberOfTotal (common_track common)),
               (''disk'', numberOfTotal (common_disk common)),
               (''composer'', firstOf (common_composer common)),
               (''conductor'', firstOf (common_conductor common)),
               (''lyricist'', firstOf (common_lyricist common)),
               (''writer'', firstOf (common_writer common)),
               (''publisher'', firstOf (common_publisher common)),
               (''label'', firstOf (common_label common)),
               (''copyright'', firstOf (common_copyright common)),
               (''encodedBy'', common_encodedby common),
               (''comment'',
                  (case common_comment common of None \<Rightarrow> Undefined
                   | Some cs \<Rightarrow> Arr (map entryText cs))),
               (''lyrics'',
                  (case common_lyrics common of None \<Rightarrow> Undefined
                   | Some ls \<Rightarrow> Arr (map entryText ls))),
               (''format'',
                  Obj [(''container'', format_container format),
                       (''codec'', orUndefined (format_codec format)),
                       (''lossless'', format_lossless format),
                       (''numberOfChannels'', format_numberOfChannels format),
                       (''bitsPerSample'', format_bitsPerSample format),
                       (''sampleRate'', format_sampleRate format),
                       (''duration'', format_duration format),
                       (''bitrate'', format_bitrate format)]),
               (''picture'',
                  (case common_picture common of None \<Rightarrow> Undefined
                   | Some ps \<Rightarrow>
                       Arr (map (\<lambda>pic. Obj [(''format'', Str (pic_format pic)),
                                           (''data'', Buf (pic_buffer pic)),
                                           (''description'', orUndefined (pic_description pic)),
                                           (''type'', orUndefined (pic_type pic))]) ps))),
               (''mpegInfo'', Obj mpegInfo),
               (''id3Info'', Obj id3Info),
               (''pictureInfo'', Arr pictureInfo),
               (''isrc'', firstOf (common_isrc common)),
               (''barcode'', firstOf (common_barcode common)),
               (''catalognumber'', firstOf (common_catalognumber common)),
               (''musicbrainz'',
                  Obj [(''artistId'', firstOf (common_musicbrainz_artistid common)),
                       (''albumId'', firstOf (common_musicbrainz_albumid common)),
                       (''trackId'', firstOf (common_musicbrainz_trackid common)),
                       (''releaseGroupId'', firstOf (common_musicbrainz_releasegroupid common))])]
        in Resolved (audioMetadata, albumArt)))
       (\<lambda>error. Resolved (base, None))"

definition extractEnhancedVideoMetadata ::
  "platform \<Rightarrow> File \<Rightarrow> js_object \<Rightarrow> js_object outcome" where
  "extractEnhancedVideoMetadata P file base =
     tryCatch
       (case videoSignal P file of
          VideoLoaded duration videoWidth videoHeight \<Rightarrow>
            Resolved (spread base
              [(''duration'', Num duration),
               (''dimensions'', Obj [(''width'', num videoWidth), (''height'', num videoHeight)])])
        | VideoError \<Rightarrow> Resolved base
        | VideoSilent \<Rightarrow> Pending)
       (\<lambda>error. Resolved base)"

text \<open>\<^verbatim>\<open>k.trim()\<close> on code units below 256.\<close>

definition isSpaceChar :: "char \<Rightarrow> bool" where
  "isSpaceChar c = ((of_char c :: nat) \<in> {0x09, 0x0A, 0x0B, 0x0C, 0x0D, 0x20, 0xA0})"

definition trim :: "string \<Rightarrow> string" where
  "trim s = rev (dropWhile isSpaceChar (rev (dropWhile isSpaceChar s)))"

definition stringOrUndefined :: "string option \<Rightarrow> jsval" where
  "stringOrUndefined s =
     (case s of None \<Rightarrow> Undefined | Some x \<Rightarrow> (if x = [] then Undefined else Str x))"

definition dateOrUndefined :: "int option \<Rightarrow> jsval" where
  "dateOrUndefined d = (case d of None \<Rightarrow> Undefined | Some t \<Rightarrow> DateV t)"

definition extractAdvancedDocumentMetadata ::
  "platform \<Rightarrow> File \<Rightarrow> byte list \<Rightarrow> js_object \<Rightarrow> js_object outcome" where
  "extractAdvancedDocumentMetadata P file buffer base =
     tryCatch
       (if file_type file = ''application/pdf'' \<or> getProp base ''extension'' = Str ''pdf''
        then await (settle (loadPdf P buffer)) (\<lambda>pdfDoc.
               Resolved (spread base
                 [(''pageCount'', num (pdf_pageCount pdfDoc)),
                  (''title'', stringOrUndefined (pdf_title pdfDoc)),
                  (''author'', stringOrUndefined (pdf_author pdfDoc)),
                  (''subject'', stringOrUndefined (pdf_subject pdfDoc)),
                  (''creator'', stringOrUndefined (pdf_creator pdfDoc)),
                  (''producer'', stringOrUndefined (pdf_producer pdfDoc)),
                  (''creationDate'', dateOrUndefined (pdf_creationDate pdfDoc)),
                  (''modificationDate'', dateOrUndefined (pdf_modificationDate pdfDoc)),
                  (''keywords'',
                     (case pdf_keywords pdfDoc of
                        None \<Rightarrow> Undefined
                      | Some keywords \<Rightarrow>
                          (if keywords = [] then Undefined
                           else Arr (map (\<lambda>k. Str (trim k)) (split (CHR '','') keywords))))),
                  (''pdfVersion'', Str ''1.4''),
                  (''isEncrypted'', Bool False)]))
        else Resolved base)
       (\<lambda>error. Resolved base)"

definition extractTextMetadata :: "File \<Rightarrow> byte list \<Rightarrow> js_object \<Rightarrow> js_object outcome" where
  "extractTextMetadata file buffer base =
     tryCatch
       (let txt = textDecode buffer;
            lines = split 0x0A txt;
            words = filter (\<lambda>word. length word > 0) (splitWhiteSpace [] txt);
            hasBom = (length buffer \<ge> 3 \<and> take 3 buffer = utf8Bom);
            lineEndings = lineEndingsOf txt
        in Resolved (spread base
             [(''charset'', Str ''UTF-8''),
              (''lineEndings'', Str lineEndings),
              (''bom'', Bool hasBom),
              (''wordCount'', num (length words)),
              (''lineCount'', num (length lines)),
              (''characterCount'', num (length txt))]))
       (\<lambda>error. Resolved base)"

section \<open>Result assembler\<close>

record FileAnalysisResult =
  metadata :: js_object
  preview :: "string option"
  thumbnail :: "string option"
  category :: category
  errors :: "string list option"
  warnings :: "string list option"

text \<open>\<^verbatim>\<open>list.length > 0 ? list : undefined\<close>\<close>

definition nonEmptyOrUndefined :: "string list \<Rightarrow> string list option" where
  "nonEmptyOrUndefined list = (if length list > 0 then Some list else None)"

text \<open>\<^verbatim>\<open>detectedType?.mime || file.type\<close>\<close>

definition effectiveMime :: "detected option \<Rightarrow> File \<Rightarrow> string" where
  "effectiveMime detectedType file =
     (case detectedType of
        None \<Rightarrow> file_type file
      | Some d \<Rightarrow> (if mime d \<noteq> [] then mime d else file_type file))"

definition baseMetadataOf :: "File \<Rightarrow> detected option \<Rightarrow> string \<Rightarrow> string \<Rightarrow> js_object" where
  "baseMetadataOf file detectedType checksum rawHeader =
     [(''name'', Str (file_name file)),
      (''size'', num (file_size file)),
      (''type'', Str (file_type file)),
      (''lastModified'', DateV (file_lastModified file)),
      (''extension'', Str (extensionOf (file_name file))),
      (''mimeType'', Str (file_type file)),
      (''detectedMimeType'', (case detectedType of None \<Rightarrow> Undefined | Some d \<Rightarrow> Str (mime d))),
      (''realFileType'', (case detectedType of None \<Rightarrow> Undefined | Some d \<Rightarrow> Str (ext d))),
      (''checksum'', Str checksum),
      (''rawHeader'', Str rawHeader)]"

text \<open>The metadata of the result built in the outer \<^verbatim>\<open>catch\<close>.\<close>

definition fallbackMetadata :: "File \<Rightarrow> js_object" where
  "fallbackMetadata file =
     [(''name'', Str (file_name file)),
      (''size'', num (file_size file)),
      (''type'', Str (file_type file)),
      (''lastModified'', DateV (file_lastModified file)),
      (''extension'', Str (extensionOf (file_name file))),
      (''mimeType'', Str (file_type file))]"

definition errorMessage :: "thrown \<Rightarrow> string" where
  "errorMessage error = (case error of Error message \<Rightarrow> message | NonError \<Rightarrow> ''Unknown error'')"

definition mismatchWarning :: "detected \<Rightarrow> File \<Rightarrow> string" where
  "mismatchWarning d file =
     ''File type mismatch: detected '' @ mime d @ '', but file extension suggests '' @ file_type file"

text \<open>
  The \<^verbatim>\<open>switch (category)\<close> of \<^verbatim>\<open>analyzeFileEnhanced\<close>: the values it leaves in
  \<^verbatim>\<open>metadata\<close>, \<^verbatim>\<open>preview\<close> and \<^verbatim>\<open>thumbnail\<close>.
\<close>

definition extractByCategory ::
  "platform \<Rightarrow> File \<Rightarrow> byte list \<Rightarrow> js_object \<Rightarrow> category \<Rightarrow>
     (js_object \<times> string option \<times> string option) outcome" where
  "extractByCategory P file buffer baseMetadata cat =
     (case cat of
        CatImage \<Rightarrow>
          await (extractEnhancedImageMetadata P file buffer baseMetadata) (\<lambda>metadata.
            Resolved (metadata, Some (previewURL P), None))
      | CatAudio \<Rightarrow>
          await (extractEnhancedAudioMetadata P file buffer baseMetadata) (\<lambda>audioResult.
            Resolved (fst audioResult, Some (previewURL P),
              (case snd audioResult of
                 None \<Rightarrow> None
               | Some albumArt \<Rightarrow> (if albumArt \<noteq> [] then Some albumArt else None))))
      | CatVideo \<Rightarrow>
          await (extractEnhancedVideoMetadata P file baseMetadata) (\<lambda>metadata.
            Resolved (metadata, Some (previewURL P), None))
      | CatDocument \<Rightarrow>
          await (extractAdvancedDocumentMetadata P file buffer baseMetadata) (\<lambda>metadata.
            Resolved (metadata, None, None))
      | CatText \<Rightarrow>
          await (extractTextMetadata file buffer baseMetadata) (\<lambda>metadata.
            Resolved (metadata, None, None))
      | _ \<Rightarrow> Resolved (baseMetadata, None, None))"

text \<open>The \<^verbatim>\<open>warnings\<close> list after the comparison of the detected with the declared type.\<close>

definition typeWarnings :: "detected option \<Rightarrow> File \<Rightarrow> string list \<Rightarrow> string list" where
  "typeWarnings detectedType file list =
     (case detectedType of
        None \<Rightarrow> list
      | Some d \<Rightarrow>
          (if mime d \<noteq> file_type file \<and> file_type file \<noteq> []
           then list @ [mismatchWarning d file] else list))"

definition analyzeFileEnhanced :: "platform \<Rightarrow> File \<Rightarrow> FileAnalysisResult outcome" where
  "analyzeFileEnhanced P file =
     (let errors = []; warnings = [] in
      tryCatch
        (await (settle (file_arrayBuffer file)) (\<lambda>buffer.
         let checksum = calculateChecksum (digestMD5 P) buffer;
             rawHeader = extractRawHeader buffer 64
         in await (settle (fileTypeFromBuffer P buffer)) (\<lambda>detectedType.
         let category = determineFileCategory (effectiveMime detectedType file) (file_name file);
             baseMetadata = baseMetadataOf file detectedType checksum rawHeader
         in await (extractByCategory P file buffer baseMetadata category)
              (\<lambda>(metadata, preview, thumbnail).
         let warnings = typeWarnings detectedType file warnings
         in Resolved \<lparr>metadata = metadata, preview = preview, thumbnail = thumbnail,
                      category = category,
                      errors = nonEmptyOrUndefined errors,
                      warnings = nonEmptyOrUndefined warnings\<rparr>))))
        (\<lambda>error.
           let errors = errors @ [''Failed to analyze file: '' @ errorMessage error]
           in Resolved \<lparr>metadata = fallbackMetadata file, preview = None, thumbnail = None,
                        category = CatOther, errors = Some errors, warnings = None\<rparr>))"

section \<open>The classifier in the words of the specification\<close>

text \<open>
  The suffix of a file name: what follows its last dot, the whole name when it has none.
\<close>

definition filenameSuffix :: "string \<Rightarrow> string" where
  "filenameSuffix filename = rev (takeWhile (\<lambda>c. c \<noteq> CHR ''.'') (rev filename))"

text \<open>
  The static extension table: one list of pairs, the groups in the order in which
  \<^verbatim>\<open>determineFileCategory\<close> tests them, so that the first entry of a suffix decides.
\<close>

definition extensionTable :: "(string \<times> category) list" where
  "extensionTable =
     map (\<lambda>e. (e, CatDocument)) documentExts @ map (\<lambda>e. (e, CatArchive)) archiveExts @
     map (\<lambda>e. (e, CatImage)) imageExts @ map (\<lambda>e. (e, CatVideo)) videoExts @
     map (\<lambda>e. (e, CatAudio)) audioExts @ map (\<lambda>e. (e, CatText)) textExts"

text \<open>
  Classification by precedence: the sniffed MIME type, or the declared one when sniffing
  found nothing (no result, or an empty type); its prefix; then the table; then
  \<open>CatOther\<close>.
\<close>

definition classifyByPrecedence :: "string option \<Rightarrow> string \<Rightarrow> string \<Rightarrow> category" where
  "classifyByPrecedence sniffedMime declaredMime filename =
     (let mimeType = (case sniffedMime of
                        None \<Rightarrow> declaredMime
                      | Some m \<Rightarrow> (if m = [] then declaredMime else m))
      in if startsWith mimeType ''image/'' then CatImage
         else if startsWith mimeType ''video/'' then CatVideo
         else if startsWith mimeType ''audio/'' then CatAudio
         else if startsWith mimeType ''text/'' then CatText
         else (case map_of extensionTable (toLowerCase (filenameSuffix filename)) of
                 Some c \<Rightarrow> c
               | None \<Rightarrow> CatOther))"

section \<open>APP0 segments met by the marker scan\<close>

text \<open>
  An APP0 marker stands at \<open>offset\<close> and the segment behind it carries the identifier
  \<^verbatim>\<open>JFIF\0\<close>: the two tests under which \<open>scanSegments\<close> assigns \<^verbatim>\<open>result.jfif\<close>.
\<close>

definition app0JfifAt :: "byte list \<Rightarrow> nat \<Rightarrow> bool" where
  "app0JfifAt buffer offset =
     (case getUint16 buffer offset of
        Inl e \<Rightarrow> False
      | Inr marker \<Rightarrow>
          (marker AND 0xFF00) = 0xFF00 \<and> (marker AND 0xFF) = 0xE0 \<and>
          textDecode (arraySlice buffer (offset + 4) (offset + 9)) = jfifIdentifier)"

text \<open>No such segment from offset 4 on, that is, after the marker of a first APP0 segment.\<close>

definition noLaterJfif :: "byte list \<Rightarrow> bool" where
  "noLaterJfif buffer = list_all (\<lambda>offset. \<not> app0JfifAt buffer offset) [4..<length buffer]"

section \<open>Property names\<close>

text \<open>
  The names of the properties of \<^verbatim>\<open>baseMetadata\<close>, and of those that each extractor writes
  after \<^verbatim>\<open>...base\<close> in the object it returns.
\<close>

definition baseFields :: "string list" where
  "baseFields = [''name'', ''size'', ''type'', ''lastModified'', ''extension'', ''mimeType'',
                 ''detectedMimeType'', ''realFileType'', ''checksum'', ''rawHeader'']"

definition imageFields :: "string list" where
  "imageFields = [''dimensions'', ''megapixels'', ''exif'', ''colorSpace'', ''bitsPerSample'',
                  ''compression'', ''encoding'', ''jfif'']"

definition audioFields :: "string list" where
  "audioFields = [''duration'', ''bitrate'', ''sampleRate'', ''channels'', ''codecProfile'',
     ''title'', ''artist'', ''album'', ''albumArtist'', ''year'', ''date'', ''genre'', ''track'',
     ''disk'', ''composer'', ''conductor'', ''lyricist'', ''writer'', ''publisher'', ''label'',
     ''copyright'', ''encodedBy'', ''comment'', ''lyrics'', ''format'', ''picture'', ''mpegInfo'',
     ''id3Info'', ''pictureInfo'', ''isrc'', ''barcode'', ''catalognumber'', ''musicbrainz'']"

definition videoFields :: "string list" where
  "videoFields = [''duration'', ''dimensions'']"

definition documentFields :: "string list" where
  "documentFields = [''pageCount'', ''title'', ''author'', ''subject'', ''creator'', ''producer'',
     ''creationDate'', ''modificationDate'', ''keywords'', ''pdfVersion'', ''isEncrypted'']"

definition textFields :: "string list" where
  "textFields = [''charset'', ''lineEndings'', ''bom'', ''wordCount'', ''lineCount'',
                 ''characterCount'']"

definition fieldsOf :: "category \<Rightarrow> string list" where
  "fieldsOf c =
     (case c of
        CatImage \<Rightarrow> imageFields
      | CatAudio \<Rightarrow> audioFields
      | CatVideo \<Rightarrow> videoFields
      | CatDocument \<Rightarrow> documentFields
      | CatText \<Rightarrow> textFields
      | _ \<Rightarrow> [])"

text \<open>The record is \<open>base\<close> itself, or \<open>base\<close> extended by properties with the given names.\<close>

definition extends :: "js_object \<Rightarrow> string list \<Rightarrow> js_object \<Rightarrow> bool" where
  "extends base names md =
     (md = base \<or> (\<exists>props. md = spread base props \<and> map fst props = names))"

section \<open>Sample files and a sample platform\<close>

text \<open>
  A platform on which the sniffer knows the JPEG signature only, images load as one
  pixel without EXIF tags, the audio and PDF parsers throw, the video element stays
  silent and MD5 is not supported.
\<close>

definition samplePlatform :: platform where
  "samplePlatform =
     \<lparr>digestMD5 = (\<lambda>buffer. Inl (Error ''Unrecognized name.'')),
      fileTypeFromBuffer =
        (\<lambda>buffer. Inr (if take 3 buffer = [0xFF, 0xD8, 0xFF]
                       then Some \<lparr>mime = ''image/jpeg'', ext = ''jpg''\<rparr> else None)),
      imageSignal = (\<lambda>file. ImageLoaded 1 1),
      parseExif = (\<lambda>buffer. Inr None),
      parseBuffer = (\<lambda>buffer mimeType size. Inl (Error ''Failed to determine audio format'')),
      videoSignal = (\<lambda>file. VideoSilent),
      loadPdf = (\<lambda>buffer. Inl (Error ''No PDF header found'')),
      previewURL = ''blob:preview'',
      albumArtURL = ''blob:cover'',
      numberToString = (\<lambda>n. ''0''),
      roundReciprocal = (\<lambda>n. n),
      megapixelsOf = (\<lambda>w h. Finite 0)\<rparr>"

text \<open>A JPEG start-of-image marker and one APP0 segment: JFIF 1.01, 72 dots per inch.\<close>

definition jfifBytes :: "byte list" where
  "jfifBytes =
     [0xFF, 0xD8, 0xFF, 0xE0, 0x00, 0x10, 0x4A, 0x46, 0x49, 0x46, 0x00, 0x01, 0x01, 0x01,
      0x00, 0x48, 0x00, 0x48, 0x00, 0x00]"

definition flacFile :: File where
  "flacFile =
     \<lparr>file_name = ''track.flac'', file_size = 4, file_type = ''application/octet-stream'',
      file_lastModified = 0, file_arrayBuffer = Inr [0x00, 0x00, 0x00, 0x00]\<rparr>"

definition notesFile :: File where
  "notesFile =
     \<lparr>file_name = ''notes.TXT'', file_size = 2, file_type = [],
      file_lastModified = 0, file_arrayBuffer = Inr [0x68, 0x69]\<rparr>"

text \<open>The same, followed by a second APP0 segment: JFIF 1.02, no unit, density 1 by 1.\<close>

definition twoJfifSegments :: "byte list" where
  "twoJfifSegments =
     jfifBytes @
     [0xFF, 0xE0, 0x00, 0x10, 0x4A, 0x46, 0x49, 0x46, 0x00, 0x01, 0x02, 0x00,
      0x00, 0x01, 0x00, 0x01, 0x00, 0x00]"

text \<open>The signature of a PNG file.\<close>

definition pngSignature :: "byte list" where
  "pngSignature = [0x89, 0x50, 0x4E, 0x47, 0x0D, 0x0A, 0x1A, 0x0A]"

text \<open>
  The sample platform with an image that fails to decode, an EXIF parser that throws and
  a video element that reports an error.
\<close>

definition failingPlatform :: platform where
  "failingPlatform =
     samplePlatform
       \<lparr>imageSignal := (\<lambda>file. ImageError),
        parseExif := (\<lambda>buffer. Inl (Error ''Unknown file format'')),
        videoSignal := (\<lambda>file. VideoError)\<rparr>"

definition photoAsText :: File where
  "photoAsText =
     \<lparr>file_name = ''photo.txt'', file_size = 20, file_type = ''text/plain'',
      file_lastModified = 0, file_arrayBuffer = Inr jfifBytes\<rparr>"

definition untypedPhoto :: File where
  "untypedPhoto =
     \<lparr>file_name = ''photo.jpg'', file_size = 20, file_type = [],
      file_lastModified = 0, file_arrayBuffer = Inr jfifBytes\<rparr>"

definition clipFile :: File where
  "clipFile =
     \<lparr>file_name = ''clip.mp4'', file_size = 1, file_type = ''video/mp4'',
      file_lastModified = 0, file_arrayBuffer = Inr [0x00]\<rparr>"

definition unreadableFile :: File where
  "unreadableFile =
     \<lparr>file_name = ''lost.BIN'', file_size = 7, file_type = ''application/octet-stream'',
      file_lastModified = 1700000000000,
      file_arrayBuffer = Inl (Error ''The requested file could not be read'')\<rparr>"

section \<open>Promises and object literals\<close>

lemma await_simps [simp]:
  "await (Resolved x) k = k x"
  "await (Rejected e) k = Rejected e"
  "await Pending k = Pending"
  by (simp_all add: await_def)

lemma tryCatch_simps [simp]:
  "tryCatch (Resolved x) h = Resolved x"
  "tryCatch (Rejected e) h = h e"
  "tryCatch Pending h = Pending"
  by (simp_all add: tryCatch_def)

lemma settle_simps [simp]:
  "settle (Inl e) = Rejected e"
  "settle (Inr x) = Resolved x"
  by (simp_all add: settle_def)

lemma tryCatch_not_Rejected: "tryCatch body (\<lambda>e. Resolved (f e)) \<noteq> Rejected t"
  by (cases body) simp_all

lemma await_Resolved_not_Rejected:
  assumes "\<And>t. p \<noteq> Rejected t"
  shows "await p (\<lambda>x. Resolved (f x)) \<noteq> Rejected t"
  using assms by (cases p) simp_all

lemma map_of_spread: "map_of (spread base props) = map_of base ++ map_of (rev props)"
  unfolding spread_def
proof (induction props arbitrary: base)
  case Nil
  show ?case by simp
next
  case (Cons p ps)
  obtain k v where p: "p = (k, v)" by (cases p)
  have "map_of (fold (\<lambda>(k, v). AList.update k v) ps (AList.update k v base))
        = map_of (AList.update k v base) ++ map_of (rev ps)"
    by (rule Cons.IH)
  then show ?case
    by (simp add: p update_conv' map_add_def fun_eq_iff split: option.splits)
qed

section \<open>Extractors and the assembler: which way a run goes\<close>

lemma image_not_Rejected: "extractEnhancedImageMetadata P file buffer base \<noteq> Rejected t"
  unfolding extractEnhancedImageMetadata_def by (rule tryCatch_not_Rejected)

lemma audio_not_Rejected: "extractEnhancedAudioMetadata P file buffer base \<noteq> Rejected t"
  unfolding extractEnhancedAudioMetadata_def by (rule tryCatch_not_Rejected)

lemma video_not_Rejected: "extractEnhancedVideoMetadata P file base \<noteq> Rejected t"
  unfolding extractEnhancedVideoMetadata_def by (rule tryCatch_not_Rejected)

lemma document_not_Rejected: "extractAdvancedDocumentMetadata P file buffer base \<noteq> Rejected t"
  unfolding extractAdvancedDocumentMetadata_def by (rule tryCatch_not_Rejected)

lemma text_not_Rejected: "extractTextMetadata file buffer base \<noteq> Rejected t"
  unfolding extractTextMetadata_def by (rule tryCatch_not_Rejected)

lemma audio_parse_throws:
  "parseBuffer P buffer (file_type file) (file_size file) = Inl e \<Longrightarrow>
   extractEnhancedAudioMetadata P file buffer base = Resolved (base, None)"
  by (simp add: extractEnhancedAudioMetadata_def)

lemma extractByCategory_not_Rejected: "extractByCategory P file buffer base c \<noteq> Rejected t"
proof (cases c)
  case CatImage
  then show ?thesis
    by (simp add: extractByCategory_def await_Resolved_not_Rejected image_not_Rejected)
next
  case CatVideo
  then show ?thesis
    by (simp add: extractByCategory_def await_Resolved_not_Rejected video_not_Rejected)
next
  case CatAudio
  then show ?thesis
    by (simp add: extractByCategory_def await_Resolved_not_Rejected audio_not_Rejected)
next
  case CatDocument
  then show ?thesis
    by (simp add: extractByCategory_def await_Resolved_not_Rejected document_not_Rejected)
next
  case CatText
  then show ?thesis
    by (simp add: extractByCategory_def await_Resolved_not_Rejected text_not_Rejected)
qed (simp_all add: extractByCategory_def)

text \<open>A run in which the buffer is read and the sniffer returns.\<close>

lemma analyze_normal_path:
  assumes buf: "file_arrayBuffer file = Inr buffer"
    and det: "fileTypeFromBuffer P buffer = Inr detectedType"
  shows "analyzeFileEnhanced P file =
     await (extractByCategory P file buffer
              (baseMetadataOf file detectedType (calculateChecksum (digestMD5 P) buffer)
                 (extractRawHeader buffer 64))
              (determineFileCategory (effectiveMime detectedType file) (file_name file)))
       (\<lambda>(metadata, preview, thumbnail).
          Resolved \<lparr>metadata = metadata, preview = preview, thumbnail = thumbnail,
                    category = determineFileCategory (effectiveMime detectedType file) (file_name file),
                    errors = None,
                    warnings = nonEmptyOrUndefined (typeWarnings detectedType file [])\<rparr>)"
proof -
  let ?x = "extractByCategory P file buffer
              (baseMetadataOf file detectedType (calculateChecksum (digestMD5 P) buffer)
                 (extractRawHeader buffer 64))
              (determineFileCategory (effectiveMime detectedType file) (file_name file))"
  show ?thesis
  proof (cases ?x)
    case (Resolved y)
    then show ?thesis
      by (cases y) (simp add: analyzeFileEnhanced_def buf det nonEmptyOrUndefined_def)
  next
    case (Rejected t)
    then show ?thesis using extractByCategory_not_Rejected by blast
  next
    case Pending
    then show ?thesis
      by (simp add: analyzeFileEnhanced_def buf det)
  qed
qed

text \<open>A run in which the buffer read or the sniffer throws.\<close>

lemma analyze_fallback:
  assumes "file_arrayBuffer file = Inl e \<or>
           (file_arrayBuffer file = Inr buffer \<and> fileTypeFromBuffer P buffer = Inl e)"
  shows "analyzeFileEnhanced P file =
           Resolved \<lparr>metadata = fallbackMetadata file, preview = None, thumbnail = None,
                     category = CatOther,
                     errors = Some [''Failed to analyze file: '' @ errorMessage e],
                     warnings = None\<rparr>"
  using assms
  by (auto simp: analyzeFileEnhanced_def)

lemma analyze_category:
  assumes "file_arrayBuffer file = Inr buffer"
    and "fileTypeFromBuffer P buffer = Inr detectedType"
    and "analyzeFileEnhanced P file = Resolved r"
  shows "category r = determineFileCategory (effectiveMime detectedType file) (file_name file)"
  using assms(3) unfolding analyze_normal_path [OF assms(1,2)]
  by (auto simp: await_def split: outcome.splits)

section \<open>File name suffixes and the extension table\<close>

lemma splitOn_nonempty: "splitOn sep cur s \<noteq> []"
  by (induction s arbitrary: cur) auto

lemma last_splitOn:
  "last (splitOn sep cur s) =
     (if sep \<in> set s then rev (takeWhile (\<lambda>c. c \<noteq> sep) (rev s)) else cur @ s)"
proof (induction s arbitrary: cur)
  case Nil
  show ?case by simp
next
  case (Cons c cs)
  show ?case
  proof (cases "c = sep")
    case True
    have "last (splitOn sep cur (c # cs)) = last (splitOn sep [] cs)"
      using True by (simp add: splitOn_nonempty)
    also have "\<dots> = (if sep \<in> set cs then rev (takeWhile (\<lambda>c. c \<noteq> sep) (rev cs)) else cs)"
      by (simp add: Cons.IH)
    also have "\<dots> = rev (takeWhile (\<lambda>c. c \<noteq> sep) (rev (c # cs)))"
    proof (cases "sep \<in> set cs")
      case True
      then show ?thesis by (simp add: takeWhile_append1 [where x = sep])
    next
      case False
      then have "takeWhile (\<lambda>c. c \<noteq> sep) (rev cs @ [sep]) = rev cs"
        by (subst takeWhile_append2) auto
      then show ?thesis using \<open>c = sep\<close> False by simp
    qed
    finally show ?thesis using True by simp
  next
    case False
    have "last (splitOn sep cur (c # cs)) = last (splitOn sep (cur @ [c]) cs)"
      using False by simp
    also have "\<dots> = (if sep \<in> set cs then rev (takeWhile (\<lambda>c. c \<noteq> sep) (rev cs))
                     else (cur @ [c]) @ cs)"
      by (simp add: Cons.IH)
    also have "\<dots> = (if sep \<in> set (c # cs)
                     then rev (takeWhile (\<lambda>c. c \<noteq> sep) (rev (c # cs))) else cur @ c # cs)"
    proof (cases "sep \<in> set cs")
      case True
      then show ?thesis using False by (simp add: takeWhile_append1 [where x = sep])
    next
      case False
      then show ?thesis using \<open>c \<noteq> sep\<close> by auto
    qed
    finally show ?thesis .
  qed
qed

lemma extensionOf_suffix: "extensionOf filename = toLowerCase (filenameSuffix filename)"
proof -
  have "last (split (CHR ''.'') filename) = filenameSuffix filename"
  proof (cases "CHR ''.'' \<in> set filename")
    case True
    then show ?thesis by (simp add: split_def last_splitOn filenameSuffix_def)
  next
    case False
    then have whole: "rev (takeWhile (\<lambda>c. c \<noteq> CHR ''.'') (rev filename)) = filename"
      by (subst takeWhile_eq_all_conv [THEN iffD2]) auto
    show ?thesis using False by (simp add: split_def last_splitOn filenameSuffix_def whole)
  qed
  then show ?thesis
    by (simp add: extensionOf_def pop_def split_def splitOn_nonempty)
qed

lemma map_of_tagged:
  "map_of (map (\<lambda>e. (e, c)) xs @ rest) e = (if e \<in> set xs then Some c else map_of rest e)"
  by (induction xs) auto

lemma extensionTable_lookup:
  "(case map_of extensionTable e of Some c \<Rightarrow> c | None \<Rightarrow> CatOther) =
     (if arrayIncludes documentExts e then CatDocument
      else if arrayIncludes archiveExts e then CatArchive
      else if arrayIncludes imageExts e then CatImage
      else if arrayIncludes videoExts e then CatVideo
      else if arrayIncludes audioExts e then CatAudio
      else if arrayIncludes textExts e then CatText
      else CatOther)"
proof -
  have last: "map_of (map (\<lambda>e. (e, CatText)) textExts) e =
                (if e \<in> set textExts then Some CatText else None)"
    using map_of_tagged [of CatText textExts "[]" e] by simp
  show ?thesis
    unfolding extensionTable_def arrayIncludes_def
    by (simp only: map_of_tagged last) simp
qed

lemma determineFileCategory_precedence:
  "determineFileCategory (effectiveMime detectedType file) (file_name file) =
     classifyByPrecedence (map_option mime detectedType) (file_type file) (file_name file)"
proof -
  have m: "effectiveMime detectedType file =
        (case map_option mime detectedType of
           None \<Rightarrow> file_type file
         | Some m \<Rightarrow> (if m = [] then file_type file else m))"
    by (cases detectedType) (simp_all add: effectiveMime_def)
  show ?thesis
    unfolding determineFileCategory_def classifyByPrecedence_def m Let_def
      extensionOf_suffix extensionTable_lookup ..
qed

lemmas extension_tables =
  documentExts_def archiveExts_def imageExts_def videoExts_def audioExts_def textExts_def

lemmas char_eval = lowerChar_def digitChar_def upperHex_def char_of_def bit_Suc_0_iff

lemmas classify_eval =
  determineFileCategory_def startsWith_def extensionOf_def pop_def split_def toLowerCase_def
  arrayIncludes_def effectiveMime_def extension_tables char_eval

section \<open>Substrings and line endings\<close>

lemma take_eq_iff_prefix: "take (length sub) ys = sub \<longleftrightarrow> (\<exists>s. ys = sub @ s)"
proof
  assume "take (length sub) ys = sub"
  then have "ys = sub @ drop (length sub) ys"
    by (metis append_take_drop_id)
  then show "\<exists>s. ys = sub @ s" ..
next
  assume "\<exists>s. ys = sub @ s"
  then show "take (length sub) ys = sub" by auto
qed

lemma stringIncludes_iff: "stringIncludes xs sub \<longleftrightarrow> (\<exists>p s. xs = p @ sub @ s)"
proof (induction xs)
  case Nil
  show ?case by auto
next
  case (Cons x xs)
  have "(\<exists>p s. x # xs = p @ sub @ s) \<longleftrightarrow>
        (\<exists>s. x # xs = sub @ s) \<or> (\<exists>p s. xs = p @ sub @ s)"
  proof
    assume "\<exists>p s. x # xs = p @ sub @ s"
    then obtain p s where ps: "x # xs = p @ sub @ s" by blast
    show "(\<exists>s. x # xs = sub @ s) \<or> (\<exists>p s. xs = p @ sub @ s)"
    proof (cases p)
      case Nil
      with ps show ?thesis by auto
    next
      case (Cons y p')
      with ps have "xs = p' @ sub @ s" by simp
      then show ?thesis by blast
    qed
  next
    assume "(\<exists>s. x # xs = sub @ s) \<or> (\<exists>p s. xs = p @ sub @ s)"
    then show "\<exists>p s. x # xs = p @ sub @ s"
    proof
      assume "\<exists>s. x # xs = sub @ s"
      then obtain s where "x # xs = [] @ sub @ s" by auto
      then show ?thesis by blast
    next
      assume "\<exists>p s. xs = p @ sub @ s"
      then obtain p s where "x # xs = (x # p) @ sub @ s" by auto
      then show ?thesis by blast
    qed
  qed
  then show ?case
    using Cons.IH take_eq_iff_prefix [of sub "x # xs"] by (simp del: take_Suc_Cons)
qed

lemma getProp_spread:
  "getProp (spread base props) k =
     (case map_of (rev props) k of None \<Rightarrow> getProp base k | Some v \<Rightarrow> v)"
  by (simp add: getProp_def map_of_spread map_add_def split: option.splits)

lemmas text_eval = extractTextMetadata_def textDecode_def utf8Lead_def toUtf16_def dropBom_def
  split_def isWhiteSpace_def lineEndingsOf_def utf8Bom_def num_def

lemma text_lineEndings:
  "\<exists>md. extractTextMetadata file buffer base = Resolved md \<and>
      getProp md ''lineEndings'' = Str (lineEndingsOf (textDecode buffer))"
  by (simp add: extractTextMetadata_def Let_def getProp_spread)

section \<open>Two bytes read as one number\<close>

lemma low_byte: "ucast (push_bit 8 (ucast (a :: 8 word)) OR ucast b :: 16 word) = (b :: 8 word)"
  by (rule bit_word_eqI) (auto simp: bit_simps)

lemma byte_no_high_bit: "\<not> bit (b :: 8 word) (8 + n)"
  using bit_imp_le_length [of b "8 + n"] by auto

lemma high_byte:
  "ucast (drop_bit 8 (push_bit 8 (ucast a) OR ucast (b :: 8 word) :: 16 word)) = (a :: 8 word)"
  by (rule bit_word_eqI) (auto simp: bit_simps byte_no_high_bit)

lemma u16_soi:
  "(push_bit 8 (ucast (a::8 word)) OR ucast (b::8 word) :: 16 word) = 0xFFD8
     \<longleftrightarrow> a = 0xFF \<and> b = 0xD8"
proof
  assume eq: "(push_bit 8 (ucast a) OR ucast b :: 16 word) = 0xFFD8"
  have "b = ucast (0xFFD8 :: 16 word)" using low_byte [of a b] eq by simp
  moreover have "a = ucast (drop_bit 8 (0xFFD8 :: 16 word))" using high_byte [of a b] eq by simp
  ultimately show "a = 0xFF \<and> b = 0xD8" by simp
next
  assume "a = 0xFF \<and> b = 0xD8"
  then show "(push_bit 8 (ucast a) OR ucast b :: 16 word) = 0xFFD8" by simp
qed

section \<open>The marker scan\<close>

lemma noLaterJfif_all:
  assumes "noLaterJfif buffer" and "4 \<le> offset"
  shows "\<not> app0JfifAt buffer offset"
proof (cases "offset < length buffer")
  case True
  with assms show ?thesis by (simp add: noLaterJfif_def list_all_iff)
next
  case False
  then show ?thesis by (simp add: app0JfifAt_def getUint16_def)
qed

lemma scan_keeps_jfif:
  assumes "\<forall>i\<ge>offset. \<not> app0JfifAt buffer i"
  shows "map_of (fst (scanSegments buffer offset result)) ''jfif'' = map_of result ''jfif''"
  using assms
proof (induction buffer offset result rule: scanSegments.induct)
  case (1 buffer offset result)
  have here: "\<not> app0JfifAt buffer offset"
    using "1.prems" by simp
  have later: "\<forall>i\<ge>offset + 2 + n. \<not> app0JfifAt buffer i" for n
    using "1.prems" by simp
  show ?case
  proof (cases "offset + 1 < length buffer")
    case False
    then show ?thesis by (subst scanSegments.simps) simp
  next
    case inside: True
    show ?thesis
    proof (cases "getUint16 buffer offset")
      case (Inl e)
      then show ?thesis using inside by (subst scanSegments.simps) simp
    next
      case (Inr marker)
      show ?thesis
      proof (cases "(marker AND 0xFF00) \<noteq> 0xFF00")
        case True
        then show ?thesis using inside Inr by (subst scanSegments.simps) simp
      next
        case ff: False
        show ?thesis
        proof (cases "getUint16 buffer (offset + 2)")
          case (Inl e)
          then show ?thesis using inside Inr ff
            by (subst scanSegments.simps) (simp add: Let_def)
        next
          case len: (Inr len)
          consider (app0) "marker AND 0xFF = 0xE0"
            | (sof0) "marker AND 0xFF \<noteq> 0xE0" "marker AND 0xFF = 0xC0"
            | (other) "marker AND 0xFF \<noteq> 0xE0" "marker AND 0xFF \<noteq> 0xC0"
            by blast
          then show ?thesis
          proof cases
            case app0
            have a: "offset + 2 + 2 = offset + 4" and b: "offset + 2 + 7 = offset + 9"
              by simp_all
            have noid: "textDecode (arraySlice buffer (offset + 2 + 2) (offset + 2 + 7)) \<noteq> jfifIdentifier"
              unfolding a b using here Inr ff app0 by (simp add: app0JfifAt_def)
            have "map_of (fst (scanSegments buffer (offset + 2 + unat len) result)) ''jfif''
                  = map_of result ''jfif''"
              using inside Inr ff app0 len noid later [of "unat len"]
              by (intro "1.IH"(2)) simp_all
            then show ?thesis using inside Inr ff app0 len noid
              by (subst scanSegments.simps) (simp add: Let_def)
          next
            case sof0
            show ?thesis
            proof (cases "encodingBlock buffer (offset + 2)")
              case (Inl e)
              then show ?thesis using inside Inr ff sof0 len
                by (subst scanSegments.simps) (simp add: Let_def)
            next
              case blk: (Inr block)
              have "map_of (fst (scanSegments buffer (offset + 2 + unat len)
                        (AList.update ''encoding'' block result))) ''jfif''
                  = map_of (AList.update ''encoding'' block result) ''jfif''"
                using inside Inr ff sof0 len blk later [of "unat len"]
                by (intro "1.IH"(3)) simp_all
              then show ?thesis using inside Inr ff sof0 len blk
                by (subst scanSegments.simps) (simp add: Let_def update_conv')
            qed
          next
            case other
            have "map_of (fst (scanSegments buffer (offset + 2 + unat len) result)) ''jfif''
                  = map_of result ''jfif''"
              using inside Inr ff other len later [of "unat len"]
              by (intro "1.IH"(4)) simp_all
            then show ?thesis using inside Inr ff other len
              by (subst scanSegments.simps) (simp add: Let_def)
          qed
        qed
      qed
    qed
  qed
qed


lemma getProp_result:
  "map_of obj k = Some v \<Longrightarrow> getProp obj k = v"
  by (simp add: getProp_def)

lemmas jpeg_eval = getUint16_def getUint8_def jfifBlock_def encodingBlock_def andThen_def
  arraySlice_def textDecode_def utf8Lead_def toUtf16_def dropBom_def jfifIdentifier_def
  padStart_def digitChar_def char_of_def bit_Suc_0_iff toStringRadix.simps

lemma jfif_segment_read:
  assumes buffer: "buffer =
      [0xFF, 0xD8, 0xFF, 0xE0, l1, l2, 0x4A, 0x46, 0x49, 0x46, 0x00, 0x01, 0x01, 0x01,
       0x00, 0x48, 0x00, 0x48] @ rest"
    and later: "noLaterJfif buffer"
  shows "getProp (analyzeJPEGStructure buffer) ''jfif'' =
     Obj [(''version'', Str ''1.01''), (''resolutionUnit'', Str ''inches''),
          (''xResolution'', num 72), (''yResolution'', num 72)]"
proof -
  let ?block = "Obj [(''version'', Str ''1.01''), (''resolutionUnit'', Str ''inches''),
          (''xResolution'', num 72), (''yResolution'', num 72)]"
  let ?start = "[(''encoding'', Obj []), (''jfif'', Obj [])]"
  let ?len = "push_bit 8 (ucast l1) OR ucast l2 :: 16 word"
  have soi: "getUint16 buffer 0 = Inr 0xFFD8"
    by (simp add: buffer getUint16_def)
  have marker: "getUint16 buffer 2 = Inr 0xFFE0"
    by (simp add: buffer getUint16_def)
  have len: "getUint16 buffer 4 = Inr ?len"
    by (simp add: buffer getUint16_def)
  have ident: "textDecode (arraySlice buffer 6 11) = jfifIdentifier"
    by (simp add: buffer jpeg_eval)
  have block: "jfifBlock buffer 4 = Inr ?block"
    by (simp add: buffer jpeg_eval num_def)
  have inside: "3 < length buffer"
    by (simp add: buffer)
  have step: "scanSegments buffer 2 ?start =
      scanSegments buffer (4 + unat ?len) (AList.update ''jfif'' ?block ?start)"
    by (subst scanSegments.simps) (simp add: inside marker len ident block Let_def)
  have "\<forall>i\<ge>4 + unat ?len. \<not> app0JfifAt buffer i"
    using noLaterJfif_all [OF later] by simp
  then have "map_of (fst (scanSegments buffer (4 + unat ?len) (AList.update ''jfif'' ?block ?start)))
      ''jfif'' = map_of (AList.update ''jfif'' ?block ?start) ''jfif''"
    by (rule scan_keeps_jfif)
  then have "map_of (fst (scanSegments buffer 2 ?start)) ''jfif'' = Some ?block"
    by (simp add: step)
  then show ?thesis
    by (simp add: analyzeJPEGStructure_def soi getProp_result)
qed

lemma not_jpeg:
  assumes "getUint16 buffer 0 \<noteq> Inr 0xFFD8"
  shows "analyzeJPEGStructure buffer = [(''encoding'', Obj []), (''jfif'', Obj [])]"
  using assms by (auto simp: analyzeJPEGStructure_def Let_def split: sum.splits)

section \<open>What the extractors return\<close>

lemma extendsI: "map fst props = names \<Longrightarrow> extends base names (spread base props)"
  unfolding extends_def by blast

lemma extends_base: "extends base names base"
  by (simp add: extends_def)

lemma extends_preserves:
  assumes "extends base names md" and "k \<notin> set names"
  shows "map_of md k = map_of base k"
proof -
  have "map_of (spread base props) k = map_of base k" if "map fst props = names" for props
  proof -
    have "k \<notin> fst ` set (rev props)" using that assms(2) by (metis set_map set_rev)
    then have "map_of (rev props) k = None" by (simp add: map_of_eq_None_iff)
    then show ?thesis by (simp add: map_of_spread map_add_def)
  qed
  then show ?thesis using assms(1) by (auto simp: extends_def)
qed

lemma image_shape:
  assumes "extractEnhancedImageMetadata P file buffer base = Resolved md"
  shows "extends base imageFields md"
  using assms
  by (cases "imageSignal P file"; cases "parseExif P buffer")
     (auto simp: extractEnhancedImageMetadata_def Let_def imageFields_def
       intro!: extendsI extends_base)

lemma audio_shape:
  assumes "extractEnhancedAudioMetadata P file buffer base = Resolved (md, art)"
  shows "extends base audioFields md"
  using assms
  by (cases "parseBuffer P buffer (file_type file) (file_size file)")
     (auto simp: extractEnhancedAudioMetadata_def Let_def audioFields_def
       intro!: extendsI extends_base)

lemma video_shape:
  assumes "extractEnhancedVideoMetadata P file base = Resolved md"
  shows "extends base videoFields md"
  using assms
  by (cases "videoSignal P file")
     (auto simp: extractEnhancedVideoMetadata_def videoFields_def
       intro!: extendsI extends_base)

lemma document_shape:
  assumes "extractAdvancedDocumentMetadata P file buffer base = Resolved md"
  shows "extends base documentFields md"
  using assms
  by (cases "loadPdf P buffer")
     (auto simp: extractAdvancedDocumentMetadata_def documentFields_def
       intro!: extendsI extends_base split: if_splits)

lemma text_shape:
  assumes "extractTextMetadata file buffer base = Resolved md"
  shows "extends base textFields md"
  using assms
  by (auto simp: extractTextMetadata_def Let_def textFields_def intro!: extendsI)

lemma extractByCategory_shape:
  assumes "extractByCategory P file buffer base c = Resolved (md, pv, th)"
  shows "extends base (fieldsOf c) md"
proof (cases c)
  case CatImage
  with assms show ?thesis
    by (cases "extractEnhancedImageMetadata P file buffer base")
       (auto simp: extractByCategory_def fieldsOf_def image_shape)
next
  case CatVideo
  with assms show ?thesis
    by (cases "extractEnhancedVideoMetadata P file base")
       (auto simp: extractByCategory_def fieldsOf_def video_shape)
next
  case CatAudio
  with assms show ?thesis
    by (cases "extractEnhancedAudioMetadata P file buffer base")
       (auto simp: extractByCategory_def fieldsOf_def intro: audio_shape)
next
  case CatDocument
  with assms show ?thesis
    by (cases "extractAdvancedDocumentMetadata P file buffer base")
       (auto simp: extractByCategory_def fieldsOf_def document_shape)
next
  case CatText
  with assms show ?thesis
    by (cases "extractTextMetadata file buffer base")
       (auto simp: extractByCategory_def fieldsOf_def text_shape)
next
  case CatArchive
  with assms show ?thesis by (auto simp: extractByCategory_def extends_base)
next
  case CatOther
  with assms show ?thesis by (auto simp: extractByCategory_def extends_base)
qed

lemma base_fields_apart: "k \<in> set baseFields \<Longrightarrow> k \<notin> set (fieldsOf c)"
  by (cases c)
     (auto simp: baseFields_def fieldsOf_def imageFields_def audioFields_def videoFields_def
       documentFields_def textFields_def)

lemma baseMetadataOf_names: "map fst (baseMetadataOf file detectedType checksum rawHeader) = baseFields"
  by (simp add: baseMetadataOf_def baseFields_def)

section \<open>When the extractors settle\<close>

lemma image_settles:
  "imageSignal P file \<noteq> ImageSilent \<Longrightarrow>
   \<exists>md. extractEnhancedImageMetadata P file buffer base = Resolved md"
  by (cases "imageSignal P file"; cases "parseExif P buffer")
     (simp_all add: extractEnhancedImageMetadata_def Let_def)

lemma image_pending:
  "extractEnhancedImageMetadata P file buffer base = Pending \<longleftrightarrow> imageSignal P file = ImageSilent"
  by (cases "imageSignal P file"; cases "parseExif P buffer")
     (simp_all add: extractEnhancedImageMetadata_def Let_def)

lemma video_pending:
  "extractEnhancedVideoMetadata P file base = Pending \<longleftrightarrow> videoSignal P file = VideoSilent"
  by (cases "videoSignal P file") (simp_all add: extractEnhancedVideoMetadata_def)

lemma audio_settles: "extractEnhancedAudioMetadata P file buffer base \<noteq> Pending"
  by (cases "parseBuffer P buffer (file_type file) (file_size file)")
     (simp_all add: extractEnhancedAudioMetadata_def Let_def)

lemma document_settles: "extractAdvancedDocumentMetadata P file buffer base \<noteq> Pending"
  by (cases "loadPdf P buffer") (simp_all add: extractAdvancedDocumentMetadata_def)

lemma text_settles: "extractTextMetadata file buffer base \<noteq> Pending"
  by (simp add: extractTextMetadata_def Let_def)

lemma await_Resolved_Pending: "await p (\<lambda>x. Resolved (f x)) = Pending \<longleftrightarrow> p = Pending"
  by (cases p) simp_all

lemma extractByCategory_pending:
  "extractByCategory P file buffer base c = Pending \<longleftrightarrow>
     (c = CatImage \<and> imageSignal P file = ImageSilent) \<or>
     (c = CatVideo \<and> videoSignal P file = VideoSilent)"
  by (cases c)
     (simp_all add: extractByCategory_def await_Resolved_Pending image_pending video_pending
        audio_settles document_settles text_settles)

lemma analyze_not_Rejected: "analyzeFileEnhanced P file \<noteq> Rejected t"
  unfolding analyzeFileEnhanced_def Let_def by (rule tryCatch_not_Rejected)

lemma analyze_normal_result:
  assumes buf: "file_arrayBuffer file = Inr buffer"
    and det: "fileTypeFromBuffer P buffer = Inr detectedType"
    and res: "analyzeFileEnhanced P file = Resolved r"
  shows "\<exists>md pv th.
           extractByCategory P file buffer
             (baseMetadataOf file detectedType (calculateChecksum (digestMD5 P) buffer)
                (extractRawHeader buffer 64))
             (determineFileCategory (effectiveMime detectedType file) (file_name file))
             = Resolved (md, pv, th) \<and>
           r = \<lparr>metadata = md, preview = pv, thumbnail = th,
                 category = determineFileCategory (effectiveMime detectedType file) (file_name file),
                 errors = None,
                 warnings = nonEmptyOrUndefined (typeWarnings detectedType file [])\<rparr>"
  using res unfolding analyze_normal_path [OF buf det]
  by (cases "extractByCategory P file buffer
             (baseMetadataOf file detectedType (calculateChecksum (digestMD5 P) buffer)
                (extractRawHeader buffer 64))
             (determineFileCategory (effectiveMime detectedType file) (file_name file))")
     auto

lemma analyze_pending:
  assumes buf: "file_arrayBuffer file = Inr buffer"
    and det: "fileTypeFromBuffer P buffer = Inr detectedType"
  shows "analyzeFileEnhanced P file = Pending \<longleftrightarrow>
     (determineFileCategory (effectiveMime detectedType file) (file_name file) = CatImage
        \<and> imageSignal P file = ImageSilent) \<or>
     (determineFileCategory (effectiveMime detectedType file) (file_name file) = CatVideo
        \<and> videoSignal P file = VideoSilent)"
proof -
  let ?x = "extractByCategory P file buffer
             (baseMetadataOf file detectedType (calculateChecksum (digestMD5 P) buffer)
                (extractRawHeader buffer 64))
             (determineFileCategory (effectiveMime detectedType file) (file_name file))"
  have "analyzeFileEnhanced P file = Pending \<longleftrightarrow> ?x = Pending"
    unfolding analyze_normal_path [OF buf det] by (cases ?x) auto
  then show ?thesis by (simp add: extractByCategory_pending)
qed

lemma analyze_settles:
  assumes "imageSignal P file \<noteq> ImageSilent" and "videoSignal P file \<noteq> VideoSilent"
  shows "\<exists>r. analyzeFileEnhanced P file = Resolved r"
proof -
  have "analyzeFileEnhanced P file \<noteq> Pending"
  proof (cases "file_arrayBuffer file")
    case (Inl e)
    then show ?thesis using analyze_fallback [of "file" e] by simp
  next
    case buf: (Inr buffer)
    show ?thesis
    proof (cases "fileTypeFromBuffer P buffer")
      case (Inl e)
      then show ?thesis using analyze_fallback [of "file" e buffer P] buf by simp
    next
      case (Inr detectedType)
      then show ?thesis using analyze_pending [OF buf Inr] assms by simp
    qed
  qed
  then show ?thesis using analyze_not_Rejected [of P "file"]
    by (cases "analyzeFileEnhanced P file") auto
qed

section \<open>The sample platform\<close>

lemma sample_sniff_jpeg:
  "fileTypeFromBuffer samplePlatform jfifBytes = Inr (Some \<lparr>mime = ''image/jpeg'', ext = ''jpg''\<rparr>)"
  by (simp add: samplePlatform_def jfifBytes_def)

section \<open>Failures caught inside the extractors\<close>

lemma document_load_throws:
  "loadPdf P buffer = Inl e \<Longrightarrow> extractAdvancedDocumentMetadata P file buffer base = Resolved base"
  by (simp add: extractAdvancedDocumentMetadata_def)

lemma image_exif_throws:
  "parseExif P buffer = Inl e \<Longrightarrow> imageSignal P file \<noteq> ImageSilent \<Longrightarrow>
   extractEnhancedImageMetadata P file buffer base = Resolved base"
  by (cases "imageSignal P file") (simp_all add: extractEnhancedImageMetadata_def Let_def)

lemma video_error:
  "videoSignal P file = VideoError \<Longrightarrow> extractEnhancedVideoMetadata P file base = Resolved base"
  by (simp add: extractEnhancedVideoMetadata_def)

section \<open>The base metadata inside the result\<close>

lemma baseMetadataOf_lookup:
  assumes "(k, v) \<in> set (baseMetadataOf file detectedType checksum rawHeader)"
  shows "k \<in> set baseFields"
    and "map_of (baseMetadataOf file detectedType checksum rawHeader) k = Some v"
proof -
  have "distinct (map fst (baseMetadataOf file detectedType checksum rawHeader))"
    by (simp add: baseMetadataOf_names baseFields_def)
  then show "map_of (baseMetadataOf file detectedType checksum rawHeader) k = Some v"
    using assms by (rule map_of_is_SomeI)
  have "k \<in> set (map fst (baseMetadataOf file detectedType checksum rawHeader))"
    using assms by force
  then show "k \<in> set baseFields"
    by (simp only: baseMetadataOf_names)
qed

lemma base_has_no_jpeg_blocks:
  "map_of (baseMetadataOf file detectedType checksum rawHeader) ''jfif'' = None"
  "map_of (baseMetadataOf file detectedType checksum rawHeader) ''encoding'' = None"
  "getProp (baseMetadataOf file detectedType checksum rawHeader) ''extension''
     = Str (extensionOf (file_name file))"
  by (simp_all add: baseMetadataOf_def getProp_def)

lemma getProp_Nil: "getProp [] k = Undefined"
  by (simp add: getProp_def)

lemma image_gate_closed:
  assumes "extractEnhancedImageMetadata P file buffer base = Resolved md"
    and "map_of base ''jfif'' = None" and "map_of base ''encoding'' = None"
    and "file_type file \<noteq> ''image/jpeg''"
    and "getProp base ''extension'' \<noteq> Str ''jpg''"
    and "getProp base ''extension'' \<noteq> Str ''jpeg''"
  shows "getProp md ''jfif'' = Undefined \<and> getProp md ''encoding'' = Undefined"
proof -
  have absent: "getProp base ''jfif'' = Undefined" "getProp base ''encoding'' = Undefined"
    using assms(2,3) by (simp_all add: getProp_def)
  show ?thesis
    using assms(1,4,5,6) absent
    by (cases "imageSignal P file"; cases "parseExif P buffer")
       (auto simp: extractEnhancedImageMetadata_def Let_def getProp_spread getProp_Nil)
qed

lemma image_gate_open:
  assumes "extractEnhancedImageMetadata P file buffer base = Resolved md"
    and "parseExif P buffer = Inr tags"
    and "file_type file = ''image/jpeg'' \<or> getProp base ''extension'' = Str ''jpg''
         \<or> getProp base ''extension'' = Str ''jpeg''"
  shows "getProp md ''jfif'' = getProp (analyzeJPEGStructure buffer) ''jfif''
       \<and> getProp md ''encoding'' = getProp (analyzeJPEGStructure buffer) ''encoding''"
  using assms
  by (cases "imageSignal P file")
     (auto simp: extractEnhancedImageMetadata_def Let_def getProp_spread)

lemma analyze_image_metadata:
  assumes "file_arrayBuffer file = Inr buffer"
    and "fileTypeFromBuffer P buffer = Inr detectedType"
    and "determineFileCategory (effectiveMime detectedType file) (file_name file) = CatImage"
    and "analyzeFileEnhanced P file = Resolved r"
  shows "extractEnhancedImageMetadata P file buffer
           (baseMetadataOf file detectedType (calculateChecksum (digestMD5 P) buffer)
              (extractRawHeader buffer 64)) = Resolved (metadata r)"
  using analyze_normal_result [OF assms(1,2,4)] assms(3)
  by (cases "extractEnhancedImageMetadata P file buffer
           (baseMetadataOf file detectedType (calculateChecksum (digestMD5 P) buffer)
              (extractRawHeader buffer 64))")
     (auto simp: extractByCategory_def)

section \<open>Claims about the classifier\<close>

text \<open>
  Claim C2. For every sniffing result, declared MIME type and file name, the category is
  decided in this order: the MIME type (the sniffed one, the declared one when sniffing
  found nothing) by its prefix \<open>image/\<close>, \<open>video/\<close>, \<open>audio/\<close> or \<open>text/\<close>; otherwise the
  static extension table at the lower-cased suffix of the file name; otherwise
  \<open>CatOther\<close>. The assembler reports exactly this category. A name with extension
  \<open>flac\<close> and declared type \<open>application/octet-stream\<close> is audio; a name with extension
  \<open>xyz123\<close> and a MIME type with none of the four prefixes is other.
\<close>

theorem classification_precedence:
  "determineFileCategory (effectiveMime detectedType file) (file_name file) =
     classifyByPrecedence (map_option mime detectedType) (file_type file) (file_name file)
   \<and> (file_arrayBuffer file = Inr buffer \<longrightarrow> fileTypeFromBuffer P buffer = Inr detectedType \<longrightarrow>
        analyzeFileEnhanced P file = Resolved r \<longrightarrow>
        category r =
          classifyByPrecedence (map_option mime detectedType) (file_type file) (file_name file))
   \<and> (extensionOf audioName = ''flac'' \<longrightarrow>
        determineFileCategory ''application/octet-stream'' audioName = CatAudio)
   \<and> (extensionOf unknownName = ''xyz123'' \<longrightarrow>
        \<not> startsWith m ''image/'' \<longrightarrow> \<not> startsWith m ''video/'' \<longrightarrow>
        \<not> startsWith m ''audio/'' \<longrightarrow> \<not> startsWith m ''text/'' \<longrightarrow>
        determineFileCategory m unknownName = CatOther)"
proof (intro conjI impI)
  show "determineFileCategory (effectiveMime detectedType file) (file_name file) =
     classifyByPrecedence (map_option mime detectedType) (file_type file) (file_name file)"
    by (rule determineFileCategory_precedence)
next
  assume "file_arrayBuffer file = Inr buffer" "fileTypeFromBuffer P buffer = Inr detectedType"
    "analyzeFileEnhanced P file = Resolved r"
  then show "category r =
      classifyByPrecedence (map_option mime detectedType) (file_type file) (file_name file)"
    by (simp add: analyze_category determineFileCategory_precedence)
next
  assume "extensionOf audioName = ''flac''"
  then show "determineFileCategory ''application/octet-stream'' audioName = CatAudio"
    by (simp add: determineFileCategory_def startsWith_def arrayIncludes_def extension_tables)
next
  assume "extensionOf unknownName = ''xyz123''" "\<not> startsWith m ''image/''"
    "\<not> startsWith m ''video/''" "\<not> startsWith m ''audio/''" "\<not> startsWith m ''text/''"
  then show "determineFileCategory m unknownName = CatOther"
    by (simp add: determineFileCategory_def arrayIncludes_def extension_tables)
qed

theorem classification_precedence_witness:
  "map_outcome category (analyzeFileEnhanced samplePlatform flacFile) = Resolved CatAudio
   \<and> classifyByPrecedence None ''application/octet-stream'' ''track.flac'' = CatAudio
   \<and> determineFileCategory ''application/octet-stream'' ''track.flac'' = CatAudio
   \<and> determineFileCategory [] ''data.xyz123'' = CatOther"
proof -
  let ?buffer = "[0x00, 0x00, 0x00, 0x00] :: byte list"
  have buf: "file_arrayBuffer flacFile = Inr ?buffer"
    by (simp add: flacFile_def)
  have det: "fileTypeFromBuffer samplePlatform ?buffer = Inr None"
    by (simp add: samplePlatform_def)
  have cat: "determineFileCategory (effectiveMime None flacFile) (file_name flacFile) = CatAudio"
    by (simp add: flacFile_def classify_eval)
  have thrown: "parseBuffer samplePlatform ?buffer (file_type flacFile) (file_size flacFile)
      = Inl (Error ''Failed to determine audio format'')"
    by (simp add: samplePlatform_def)
  obtain r where r: "analyzeFileEnhanced samplePlatform flacFile = Resolved r"
    by (simp add: analyze_normal_path [OF buf det] cat extractByCategory_def
        audio_parse_throws [OF thrown])
  have e1: "extensionOf ''track.flac'' = ''flac''"
    by (simp add: classify_eval)
  have e2: "extensionOf ''data.xyz123'' = ''xyz123''"
    by (simp add: classify_eval)
  have none: "\<not> startsWith [] ''image/''" "\<not> startsWith [] ''video/''"
    "\<not> startsWith [] ''audio/''" "\<not> startsWith [] ''text/''"
    by (simp_all add: startsWith_def)
  note inst = classification_precedence [of None flacFile ?buffer samplePlatform r
      "''track.flac''" "''data.xyz123''" "[]"]
  from inst buf det r e1 e2 none
  have "category r = classifyByPrecedence None (file_type flacFile) (file_name flacFile)"
    and "determineFileCategory ''application/octet-stream'' ''track.flac'' = CatAudio"
    and "determineFileCategory [] ''data.xyz123'' = CatOther"
    and "determineFileCategory (effectiveMime None flacFile) (file_name flacFile) =
           classifyByPrecedence None (file_type flacFile) (file_name flacFile)"
    by simp_all
  then show ?thesis
    using r cat by (simp add: flacFile_def)
qed

text \<open>
  Claim C9. When the effective MIME type starts with none of \<open>image/\<close>, \<open>video/\<close>,
  \<open>audio/\<close>, \<open>text/\<close>, a file name whose lower-cased extension is \<open>txt\<close> is classified as
  a document, not as text: \<open>txt\<close> is in the document list and in the text list, and the
  document list is tested first.
\<close>

theorem txt_is_document:
  assumes "\<not> startsWith (effectiveMime detectedType file) ''image/''"
    and "\<not> startsWith (effectiveMime detectedType file) ''video/''"
    and "\<not> startsWith (effectiveMime detectedType file) ''audio/''"
    and "\<not> startsWith (effectiveMime detectedType file) ''text/''"
    and "extensionOf (file_name file) = ''txt''"
  shows "determineFileCategory (effectiveMime detectedType file) (file_name file) = CatDocument
         \<and> arrayIncludes documentExts ''txt'' \<and> arrayIncludes textExts ''txt''"
  using assms
  by (simp add: determineFileCategory_def arrayIncludes_def extension_tables)

theorem txt_is_document_witness:
  "determineFileCategory (effectiveMime None notesFile) (file_name notesFile) = CatDocument
   \<and> extensionOf (file_name notesFile) = ''txt''
   \<and> effectiveMime None notesFile = []"
proof -
  have ext: "extensionOf (file_name notesFile) = ''txt''"
    by (simp add: notesFile_def classify_eval)
  have mime: "effectiveMime None notesFile = []"
    by (simp add: notesFile_def effectiveMime_def)
  have none: "\<not> startsWith (effectiveMime None notesFile) ''image/''"
    "\<not> startsWith (effectiveMime None notesFile) ''video/''"
    "\<not> startsWith (effectiveMime None notesFile) ''audio/''"
    "\<not> startsWith (effectiveMime None notesFile) ''text/''"
    by (simp_all add: mime startsWith_def)
  from txt_is_document [OF none ext] ext mime show ?thesis
    by simp
qed

section \<open>Claims about the text extractor\<close>

text \<open>
  Claim C6. On the five bytes of \<open>a b\nc\<close> the text extractor returns lineCount 2, wordCount
  3, characterCount 5, lineEndings \<open>LF (Unix)\<close> and bom false. On the bytes EF BB BF
  followed by \<open>hi\r\nthere\<close> it returns bom true and lineEndings \<open>CRLF (Windows)\<close>. For
  every buffer the lineEndings field is decided by looking in the decoded text for a
  CRLF substring, then for an LF, then for a CR, in that order; so a text that holds a
  CRLF and, later, a bare LF is reported as CRLF.
\<close>

theorem text_extractor_statistics:
  "extractTextMetadata file [0x61, 0x20, 0x62, 0x0A, 0x63] base =
     Resolved (spread base
       [(''charset'', Str ''UTF-8''), (''lineEndings'', Str ''LF (Unix)''), (''bom'', Bool False),
        (''wordCount'', num 3), (''lineCount'', num 2), (''characterCount'', num 5)])
   \<and> extractTextMetadata file
       [0xEF, 0xBB, 0xBF, 0x68, 0x69, 0x0D, 0x0A, 0x74, 0x68, 0x65, 0x72, 0x65] base =
     Resolved (spread base
       [(''charset'', Str ''UTF-8''), (''lineEndings'', Str ''CRLF (Windows)''), (''bom'', Bool True),
        (''wordCount'', num 2), (''lineCount'', num 2), (''characterCount'', num 9)])
   \<and> (\<exists>md. extractTextMetadata file buffer base = Resolved md \<and>
         getProp md ''lineEndings'' =
           Str (if \<exists>p s. textDecode buffer = p @ [0x0D, 0x0A] @ s then ''CRLF (Windows)''
                else if \<exists>p s. textDecode buffer = p @ [0x0A] @ s then ''LF (Unix)''
                else if \<exists>p s. textDecode buffer = p @ [0x0D] @ s then ''CR (Mac)''
                else ''unknown''))
   \<and> (textDecode mixed = p @ [0x0D, 0x0A] @ q @ [0x0A] @ s \<longrightarrow>
        (\<exists>md. extractTextMetadata file mixed base = Resolved md \<and>
           getProp md ''lineEndings'' = Str ''CRLF (Windows)''))"
proof (intro conjI impI)
  show "extractTextMetadata file [0x61, 0x20, 0x62, 0x0A, 0x63] base =
     Resolved (spread base
       [(''charset'', Str ''UTF-8''), (''lineEndings'', Str ''LF (Unix)''), (''bom'', Bool False),
        (''wordCount'', num 3), (''lineCount'', num 2), (''characterCount'', num 5)])"
    by (simp add: text_eval)
next
  show "extractTextMetadata file
       [0xEF, 0xBB, 0xBF, 0x68, 0x69, 0x0D, 0x0A, 0x74, 0x68, 0x65, 0x72, 0x65] base =
     Resolved (spread base
       [(''charset'', Str ''UTF-8''), (''lineEndings'', Str ''CRLF (Windows)''), (''bom'', Bool True),
        (''wordCount'', num 2), (''lineCount'', num 2), (''characterCount'', num 9)])"
    by (simp add: text_eval)
next
  show "\<exists>md. extractTextMetadata file buffer base = Resolved md \<and>
         getProp md ''lineEndings'' =
           Str (if \<exists>p s. textDecode buffer = p @ [0x0D, 0x0A] @ s then ''CRLF (Windows)''
                else if \<exists>p s. textDecode buffer = p @ [0x0A] @ s then ''LF (Unix)''
                else if \<exists>p s. textDecode buffer = p @ [0x0D] @ s then ''CR (Mac)''
                else ''unknown'')"
    using text_lineEndings [of "file" buffer base]
    by (simp only: lineEndingsOf_def stringIncludes_iff)
next
  assume mixed: "textDecode mixed = p @ [0x0D, 0x0A] @ q @ [0x0A] @ s"
  then have "stringIncludes (textDecode mixed) [0x0D, 0x0A]"
    unfolding stringIncludes_iff by blast
  then have "lineEndingsOf (textDecode mixed) = ''CRLF (Windows)''"
    by (simp add: lineEndingsOf_def)
  then show "\<exists>md. extractTextMetadata file mixed base = Resolved md \<and>
           getProp md ''lineEndings'' = Str ''CRLF (Windows)''"
    using text_lineEndings [of "file" mixed base] by simp
qed

theorem text_extractor_statistics_witness:
  "textDecode [0x61, 0x0D, 0x0A, 0x62, 0x0A, 0x63] = [0x61] @ [0x0D, 0x0A] @ [0x62] @ [0x0A] @ [0x63]
   \<and> map_outcome (\<lambda>md. getProp md ''lineEndings'')
         (extractTextMetadata notesFile [0x61, 0x0D, 0x0A, 0x62, 0x0A, 0x63] []) =
       Resolved (Str ''CRLF (Windows)'')"
proof -
  have decoded: "textDecode [0x61, 0x0D, 0x0A, 0x62, 0x0A, 0x63] =
      [0x61] @ [0x0D, 0x0A] @ [0x62] @ [0x0A] @ [0x63]"
    by (simp add: text_eval)
  from text_extractor_statistics
    [of notesFile "[]" "[]" "[0x61, 0x0D, 0x0A, 0x62, 0x0A, 0x63]" "[0x61]" "[0x62]" "[0x63]"]
    decoded
  obtain md where "extractTextMetadata notesFile [0x61, 0x0D, 0x0A, 0x62, 0x0A, 0x63] [] = Resolved md"
    and "getProp md ''lineEndings'' = Str ''CRLF (Windows)''"
    by blast
  with decoded show ?thesis by simp
qed

section \<open>Claims about the JPEG structural analyzer\<close>

text \<open>
  Claim C7, as amended. On a buffer that starts with FF D8, an APP0 marker FF E0, a
  two-byte length, the identifier \<open>JFIF\0\<close>, version bytes 01 01, units byte 01 and
  densities 00 48 and 00 48, and in which no further APP0 segment with that identifier
  follows, the analyzer yields the jfif block with version \<open>1.01\<close>, resolution unit
  \<open>inches\<close> and both resolutions 72. On a buffer whose first two bytes are not FF D8,
  also one too short to hold them, it yields an encoding block and a jfif block that are
  both empty; being a total function of the buffer, it throws on no input.
\<close>

theorem jpeg_structure_blocks:
  "(buffer =
      [0xFF, 0xD8, 0xFF, 0xE0, l1, l2, 0x4A, 0x46, 0x49, 0x46, 0x00, 0x01, 0x01, 0x01,
       0x00, 0x48, 0x00, 0x48] @ rest \<longrightarrow>
    noLaterJfif buffer \<longrightarrow>
    getProp (analyzeJPEGStructure buffer) ''jfif'' =
      Obj [(''version'', Str ''1.01''), (''resolutionUnit'', Str ''inches''),
           (''xResolution'', num 72), (''yResolution'', num 72)])
   \<and> (getUint16 other 0 \<noteq> Inr 0xFFD8 \<longrightarrow>
        analyzeJPEGStructure other = [(''encoding'', Obj []), (''jfif'', Obj [])])
   \<and> (length short < 2 \<longrightarrow>
        analyzeJPEGStructure short = [(''encoding'', Obj []), (''jfif'', Obj [])])
   \<and> (a \<noteq> 0xFF \<or> b \<noteq> 0xD8 \<longrightarrow>
        analyzeJPEGStructure (a # b # tail) = [(''encoding'', Obj []), (''jfif'', Obj [])])"
proof (intro conjI impI)
  assume "buffer =
      [0xFF, 0xD8, 0xFF, 0xE0, l1, l2, 0x4A, 0x46, 0x49, 0x46, 0x00, 0x01, 0x01, 0x01,
       0x00, 0x48, 0x00, 0x48] @ rest"
    and "noLaterJfif buffer"
  then show "getProp (analyzeJPEGStructure buffer) ''jfif'' =
      Obj [(''version'', Str ''1.01''), (''resolutionUnit'', Str ''inches''),
           (''xResolution'', num 72), (''yResolution'', num 72)]"
    by (rule jfif_segment_read)
next
  assume "getUint16 other 0 \<noteq> Inr 0xFFD8"
  then show "analyzeJPEGStructure other = [(''encoding'', Obj []), (''jfif'', Obj [])]"
    by (rule not_jpeg)
next
  assume "length short < 2"
  then have "getUint16 short 0 \<noteq> Inr 0xFFD8"
    by (simp add: getUint16_def)
  then show "analyzeJPEGStructure short = [(''encoding'', Obj []), (''jfif'', Obj [])]"
    by (rule not_jpeg)
next
  assume "a \<noteq> 0xFF \<or> b \<noteq> 0xD8"
  then have "getUint16 (a # b # tail) 0 \<noteq> Inr 0xFFD8"
    by (simp add: getUint16_def u16_soi)
  then show "analyzeJPEGStructure (a # b # tail) = [(''encoding'', Obj []), (''jfif'', Obj [])]"
    by (rule not_jpeg)
qed

theorem jpeg_structure_blocks_witness:
  "noLaterJfif (jfifBytes @ [0xFF, 0xD9])
   \<and> getProp (analyzeJPEGStructure (jfifBytes @ [0xFF, 0xD9])) ''jfif'' =
       Obj [(''version'', Str ''1.01''), (''resolutionUnit'', Str ''inches''),
            (''xResolution'', num 72), (''yResolution'', num 72)]
   \<and> getUint16 pngSignature 0 = Inr 0x8950
   \<and> analyzeJPEGStructure pngSignature = [(''encoding'', Obj []), (''jfif'', Obj [])]
   \<and> analyzeJPEGStructure [0xFF] = [(''encoding'', Obj []), (''jfif'', Obj [])]
   \<and> analyzeJPEGStructure (0x89 # 0x50 # [0x4E, 0x47, 0x0D, 0x0A, 0x1A, 0x0A]) =
       [(''encoding'', Obj []), (''jfif'', Obj [])]"
proof -
  have shape: "jfifBytes @ [0xFF, 0xD9] =
      [0xFF, 0xD8, 0xFF, 0xE0, 0x00, 0x10, 0x4A, 0x46, 0x49, 0x46, 0x00, 0x01, 0x01, 0x01,
       0x00, 0x48, 0x00, 0x48] @ [0x00, 0x00, 0xFF, 0xD9]"
    by (simp add: jfifBytes_def)
  have later: "noLaterJfif (jfifBytes @ [0xFF, 0xD9])"
    by (simp add: jfifBytes_def noLaterJfif_def app0JfifAt_def getUint16_def upt_rec_numeral)
  have png: "getUint16 pngSignature 0 = Inr 0x8950"
    by (simp add: pngSignature_def getUint16_def)
  have shape2: "pngSignature = 0x89 # 0x50 # [0x4E, 0x47, 0x0D, 0x0A, 0x1A, 0x0A]"
    by (simp add: pngSignature_def)
  note inst = jpeg_structure_blocks [of "jfifBytes @ [0xFF, 0xD9]" "0x00" "0x10"
      "[0x00, 0x00, 0xFF, 0xD9]" pngSignature "[0xFF]" "0x89" "0x50"
      "[0x4E, 0x47, 0x0D, 0x0A, 0x1A, 0x0A]"]
  have notSoi: "getUint16 pngSignature 0 \<noteq> Inr 0xFFD8"
    by (simp add: png)
  have jfif: "getProp (analyzeJPEGStructure (jfifBytes @ [0xFF, 0xD9])) ''jfif'' =
       Obj [(''version'', Str ''1.01''), (''resolutionUnit'', Str ''inches''),
            (''xResolution'', num 72), (''yResolution'', num 72)]"
    using inst shape later by blast
  have other: "analyzeJPEGStructure pngSignature = [(''encoding'', Obj []), (''jfif'', Obj [])]"
    using inst notSoi by blast
  have short: "analyzeJPEGStructure [0xFF] = [(''encoding'', Obj []), (''jfif'', Obj [])]"
    using inst by simp
  have bytes: "analyzeJPEGStructure (0x89 # 0x50 # [0x4E, 0x47, 0x0D, 0x0A, 0x1A, 0x0A]) =
      [(''encoding'', Obj []), (''jfif'', Obj [])]"
    using inst by simp
  from later jfif png other short bytes show ?thesis
    by blast
qed

theorem jpeg_structure_counterexample:
  "getUint16 pngSignature 0 = Inr 0x8950
   \<and> getProp (analyzeJPEGStructure pngSignature) ''jfif'' = Obj []
   \<and> getProp (analyzeJPEGStructure pngSignature) ''encoding'' = Obj []
   \<and> getProp (analyzeJPEGStructure pngSignature) ''jfif'' \<noteq> Undefined
   \<and> take 20 twoJfifSegments =
       [0xFF, 0xD8, 0xFF, 0xE0, 0x00, 0x10, 0x4A, 0x46, 0x49, 0x46, 0x00, 0x01, 0x01, 0x01,
        0x00, 0x48, 0x00, 0x48, 0x00, 0x00]
   \<and> getProp (analyzeJPEGStructure twoJfifSegments) ''jfif'' =
       Obj [(''version'', Str ''1.02''), (''resolutionUnit'', Str ''None''),
            (''xResolution'', num 1), (''yResolution'', num 1)]"
  by (simp add: pngSignature_def twoJfifSegments_def jfifBytes_def analyzeJPEGStructure_def
      scanSegments.simps jpeg_eval getProp_def num_def)

section \<open>Claims about the assembler\<close>

text \<open>
  Claim C3, as amended. In a run in which the buffer is read and the sniffer returns, the
  warnings of the result hold the type-mismatch warning, and nothing else, exactly when
  the sniffer found a type, the declared MIME type is not empty, and the two differ;
  otherwise there are no warnings. A run in which the buffer read or the sniffer throws
  has no warnings. A file declared \<open>text/plain\<close> whose bytes sniff as \<open>image/jpeg\<close> is
  classified as an image and gets the warning.
\<close>

theorem type_mismatch_warning:
  "(file_arrayBuffer file = Inr buffer \<longrightarrow> fileTypeFromBuffer P buffer = Inr detectedType \<longrightarrow>
      analyzeFileEnhanced P file = Resolved r \<longrightarrow>
      warnings r =
        (case detectedType of
           None \<Rightarrow> None
         | Some d \<Rightarrow> (if mime d \<noteq> file_type file \<and> file_type file \<noteq> []
                      then Some [mismatchWarning d file] else None)))
   \<and> (file_arrayBuffer other = Inl e \<or>
        (file_arrayBuffer other = Inr bytes \<and> fileTypeFromBuffer Q bytes = Inl e) \<longrightarrow>
        map_outcome warnings (analyzeFileEnhanced Q other) = Resolved None)
   \<and> (file_arrayBuffer photo = Inr jpeg \<longrightarrow> fileTypeFromBuffer R jpeg = Inr (Some d) \<longrightarrow>
        mime d = ''image/jpeg'' \<longrightarrow> file_type photo = ''text/plain'' \<longrightarrow>
        analyzeFileEnhanced R photo = Resolved result \<longrightarrow>
        category result = CatImage \<and>
        warnings result =
          Some [''File type mismatch: detected image/jpeg, but file extension suggests text/plain''])"
proof -
  have normal: "file_arrayBuffer file = Inr buffer \<longrightarrow> fileTypeFromBuffer P buffer = Inr detectedType \<longrightarrow>
      analyzeFileEnhanced P file = Resolved r \<longrightarrow>
      warnings r =
        (case detectedType of
           None \<Rightarrow> None
         | Some d \<Rightarrow> (if mime d \<noteq> file_type file \<and> file_type file \<noteq> []
                      then Some [mismatchWarning d file] else None))"
  proof (intro impI)
    assume "file_arrayBuffer file = Inr buffer" "fileTypeFromBuffer P buffer = Inr detectedType"
      "analyzeFileEnhanced P file = Resolved r"
    from analyze_normal_result [OF this]
    show "warnings r =
        (case detectedType of
           None \<Rightarrow> None
         | Some d \<Rightarrow> (if mime d \<noteq> file_type file \<and> file_type file \<noteq> []
                      then Some [mismatchWarning d file] else None))"
      by (auto simp: nonEmptyOrUndefined_def typeWarnings_def split: option.splits)
  qed
  have fallback: "file_arrayBuffer other = Inl e \<or>
        (file_arrayBuffer other = Inr bytes \<and> fileTypeFromBuffer Q bytes = Inl e) \<longrightarrow>
        map_outcome warnings (analyzeFileEnhanced Q other) = Resolved None"
    by (auto simp: analyze_fallback [of other e bytes Q])
  have photo: "file_arrayBuffer photo = Inr jpeg \<longrightarrow> fileTypeFromBuffer R jpeg = Inr (Some d) \<longrightarrow>
        mime d = ''image/jpeg'' \<longrightarrow> file_type photo = ''text/plain'' \<longrightarrow>
        analyzeFileEnhanced R photo = Resolved result \<longrightarrow>
        category result = CatImage \<and>
        warnings result =
          Some [''File type mismatch: detected image/jpeg, but file extension suggests text/plain'']"
  proof (intro impI)
    assume a: "file_arrayBuffer photo = Inr jpeg" "fileTypeFromBuffer R jpeg = Inr (Some d)"
      and m: "mime d = ''image/jpeg''" and t: "file_type photo = ''text/plain''"
      and res: "analyzeFileEnhanced R photo = Resolved result"
    from analyze_normal_result [OF a res]
    show "category result = CatImage \<and>
        warnings result =
          Some [''File type mismatch: detected image/jpeg, but file extension suggests text/plain'']"
      by (auto simp: nonEmptyOrUndefined_def typeWarnings_def mismatchWarning_def m t
          effectiveMime_def determineFileCategory_def startsWith_def)
  qed
  from normal fallback photo show ?thesis by blast
qed

theorem type_mismatch_warning_witness:
  "map_outcome category (analyzeFileEnhanced samplePlatform photoAsText) = Resolved CatImage
   \<and> map_outcome warnings (analyzeFileEnhanced samplePlatform photoAsText) =
       Resolved (Some [''File type mismatch: detected image/jpeg, but file extension suggests text/plain''])
   \<and> map_outcome warnings (analyzeFileEnhanced samplePlatform unreadableFile) = Resolved None"
proof -
  let ?d = "\<lparr>mime = ''image/jpeg'', ext = ''jpg''\<rparr>"
  have buf: "file_arrayBuffer photoAsText = Inr jfifBytes"
    by (simp add: photoAsText_def)
  have decl: "file_type photoAsText = ''text/plain''"
    by (simp add: photoAsText_def)
  have unreadable: "file_arrayBuffer unreadableFile = Inl (Error ''The requested file could not be read'')"
    by (simp add: unreadableFile_def)
  have sig: "imageSignal samplePlatform photoAsText = ImageLoaded 1 1"
    by (simp add: samplePlatform_def)
  have cat: "determineFileCategory (effectiveMime (Some ?d) photoAsText) (file_name photoAsText) = CatImage"
    by (simp add: effectiveMime_def determineFileCategory_def startsWith_def)
  have "analyzeFileEnhanced samplePlatform photoAsText \<noteq> Pending"
    by (simp add: analyze_pending [OF buf sample_sniff_jpeg] cat sig)
  then obtain r where r: "analyzeFileEnhanced samplePlatform photoAsText = Resolved r"
    using analyze_not_Rejected [of samplePlatform photoAsText]
    by (cases "analyzeFileEnhanced samplePlatform photoAsText") auto
  note inst = type_mismatch_warning [of photoAsText jfifBytes samplePlatform "Some ?d" r
      unreadableFile "Error ''The requested file could not be read''" "[]" samplePlatform
      photoAsText jfifBytes samplePlatform ?d r]
  have "category r = CatImage"
    and "warnings r =
       Some [''File type mismatch: detected image/jpeg, but file extension suggests text/plain'']"
    and "map_outcome warnings (analyzeFileEnhanced samplePlatform unreadableFile) = Resolved None"
    using inst buf sample_sniff_jpeg r decl unreadable by (simp_all add: mismatchWarning_def)
  then show ?thesis using r by simp
qed

text \<open>
  The claim as stated asks for a warning whenever the sniffed type is present, not empty
  and different from the declared one. A JPEG file that the browser declares with the
  empty type is such a file, and it gets no warning: the source tests
  \<^verbatim>\<open>file.type !== ''\<close>, not the sniffed type.
\<close>

theorem type_mismatch_counterexample:
  "file_arrayBuffer untypedPhoto = Inr jfifBytes
   \<and> fileTypeFromBuffer samplePlatform jfifBytes = Inr (Some \<lparr>mime = ''image/jpeg'', ext = ''jpg''\<rparr>)
   \<and> file_type untypedPhoto = []
   \<and> map_outcome category (analyzeFileEnhanced samplePlatform untypedPhoto) = Resolved CatImage
   \<and> map_outcome warnings (analyzeFileEnhanced samplePlatform untypedPhoto) = Resolved None"
proof -
  let ?d = "\<lparr>mime = ''image/jpeg'', ext = ''jpg''\<rparr>"
  have buf: "file_arrayBuffer untypedPhoto = Inr jfifBytes"
    by (simp add: untypedPhoto_def)
  have decl: "file_type untypedPhoto = []"
    by (simp add: untypedPhoto_def)
  have cat: "determineFileCategory (effectiveMime (Some ?d) untypedPhoto) (file_name untypedPhoto) = CatImage"
    by (simp add: effectiveMime_def determineFileCategory_def startsWith_def)
  have sig: "imageSignal samplePlatform untypedPhoto = ImageLoaded 1 1"
    by (simp add: samplePlatform_def)
  have "analyzeFileEnhanced samplePlatform untypedPhoto \<noteq> Pending"
    by (simp add: analyze_pending [OF buf sample_sniff_jpeg] cat sig)
  then obtain r where r: "analyzeFileEnhanced samplePlatform untypedPhoto = Resolved r"
    using analyze_not_Rejected [of samplePlatform untypedPhoto]
    by (cases "analyzeFileEnhanced samplePlatform untypedPhoto") auto
  from analyze_normal_result [OF buf sample_sniff_jpeg r]
  have "category r = CatImage" and "warnings r = None"
    by (auto simp: cat decl nonEmptyOrUndefined_def typeWarnings_def)
  then show ?thesis using r buf decl sample_sniff_jpeg by simp
qed

text \<open>
  Claim C5. In every result that the assembler returns, neither the errors field nor the
  warnings field is an empty list. In a run in which the buffer is read and the sniffer
  returns, no error is recorded and the errors field is undefined; the warnings field is
  undefined when the type comparison records no warning.
\<close>

theorem lists_undefined_when_empty:
  "(analyzeFileEnhanced P file = Resolved r \<longrightarrow> errors r \<noteq> Some [] \<and> warnings r \<noteq> Some [])
   \<and> (file_arrayBuffer file = Inr buffer \<longrightarrow> fileTypeFromBuffer P buffer = Inr detectedType \<longrightarrow>
        analyzeFileEnhanced P file = Resolved r \<longrightarrow>
        errors r = None \<and> (typeWarnings detectedType file [] = [] \<longrightarrow> warnings r = None))"
proof -
  have normal: "errors r = None \<and> warnings r \<noteq> Some [] \<and>
      (typeWarnings detectedType file [] = [] \<longrightarrow> warnings r = None)"
    if "file_arrayBuffer file = Inr buffer" "fileTypeFromBuffer P buffer = Inr detectedType"
      "analyzeFileEnhanced P file = Resolved r" for buffer detectedType
    using analyze_normal_result [OF that]
    by (auto simp: nonEmptyOrUndefined_def split: if_splits)
  have never: "errors r \<noteq> Some [] \<and> warnings r \<noteq> Some []"
    if res: "analyzeFileEnhanced P file = Resolved r"
  proof (cases "file_arrayBuffer file")
    case (Inl e)
    then show ?thesis using res analyze_fallback [of "file" e] by auto
  next
    case buf: (Inr bytes)
    show ?thesis
    proof (cases "fileTypeFromBuffer P bytes")
      case (Inl e)
      then show ?thesis using res buf analyze_fallback [of "file" e bytes P] by auto
    next
      case (Inr found)
      then show ?thesis using normal [OF buf Inr res] by simp
    qed
  qed
  from normal never show ?thesis by blast
qed

theorem lists_undefined_when_empty_witness:
  "map_outcome errors (analyzeFileEnhanced samplePlatform flacFile) = Resolved None
   \<and> map_outcome warnings (analyzeFileEnhanced samplePlatform flacFile) = Resolved None
   \<and> typeWarnings None flacFile [] = []"
proof -
  let ?buffer = "[0x00, 0x00, 0x00, 0x00] :: byte list"
  have buf: "file_arrayBuffer flacFile = Inr ?buffer"
    by (simp add: flacFile_def)
  have det: "fileTypeFromBuffer samplePlatform ?buffer = Inr None"
    by (simp add: samplePlatform_def)
  have cat: "determineFileCategory (effectiveMime None flacFile) (file_name flacFile) = CatAudio"
    by (simp add: flacFile_def classify_eval)
  have "analyzeFileEnhanced samplePlatform flacFile \<noteq> Pending"
    by (simp add: analyze_pending [OF buf det] cat)
  then obtain r where r: "analyzeFileEnhanced samplePlatform flacFile = Resolved r"
    using analyze_not_Rejected [of samplePlatform flacFile]
    by (cases "analyzeFileEnhanced samplePlatform flacFile") auto
  have none: "typeWarnings None flacFile [] = []"
    by (simp add: typeWarnings_def)
  from lists_undefined_when_empty [of samplePlatform flacFile r ?buffer None] buf det r none
  have "errors r = None" and "warnings r = None"
    by simp_all
  with r none show ?thesis by simp
qed

text \<open>
  Claim C1, as amended. The assembler never passes an exception to its caller. It returns
  a result whenever the image element and the video element of the platform answer with
  a load or an error event. When the buffer read or the content sniffer throws, the
  result carries the six properties name, size, type, lastModified, extension (the
  lower-cased suffix of the name) and mimeType and nothing else, the category other, an
  errors list of exactly one element, and no warnings. In every other run that returns, no
  error is recorded and the category is the classifier's, whatever was thrown and caught
  inside the checksum helper or an extractor.
\<close>

theorem outer_boundary:
  "analyzeFileEnhanced P file \<noteq> Rejected t
   \<and> (imageSignal P file \<noteq> ImageSilent \<longrightarrow> videoSignal P file \<noteq> VideoSilent \<longrightarrow>
        (\<exists>r. analyzeFileEnhanced P file = Resolved r))
   \<and> (file_arrayBuffer file = Inl e \<or>
        (file_arrayBuffer file = Inr buffer \<and> fileTypeFromBuffer P buffer = Inl e) \<longrightarrow>
        analyzeFileEnhanced P file =
          Resolved \<lparr>metadata =
                      [(''name'', Str (file_name file)),
                       (''size'', num (file_size file)),
                       (''type'', Str (file_type file)),
                       (''lastModified'', DateV (file_lastModified file)),
                       (''extension'', Str (toLowerCase (filenameSuffix (file_name file)))),
                       (''mimeType'', Str (file_type file))],
                    preview = None, thumbnail = None, category = CatOther,
                    errors = Some [''Failed to analyze file: '' @ errorMessage e],
                    warnings = None\<rparr>)
   \<and> (file_arrayBuffer other = Inr bytes \<longrightarrow> fileTypeFromBuffer Q bytes = Inr detectedType \<longrightarrow>
        analyzeFileEnhanced Q other = Resolved r \<longrightarrow>
        errors r = None \<and>
        category r = determineFileCategory (effectiveMime detectedType other) (file_name other))"
proof -
  have settles: "imageSignal P file \<noteq> ImageSilent \<longrightarrow> videoSignal P file \<noteq> VideoSilent \<longrightarrow>
        (\<exists>r. analyzeFileEnhanced P file = Resolved r)"
    using analyze_settles by blast
  have fallback: "file_arrayBuffer file = Inl e \<or>
        (file_arrayBuffer file = Inr buffer \<and> fileTypeFromBuffer P buffer = Inl e) \<longrightarrow>
        analyzeFileEnhanced P file =
          Resolved \<lparr>metadata =
                      [(''name'', Str (file_name file)),
                       (''size'', num (file_size file)),
                       (''type'', Str (file_type file)),
                       (''lastModified'', DateV (file_lastModified file)),
                       (''extension'', Str (toLowerCase (filenameSuffix (file_name file)))),
                       (''mimeType'', Str (file_type file))],
                    preview = None, thumbnail = None, category = CatOther,
                    errors = Some [''Failed to analyze file: '' @ errorMessage e],
                    warnings = None\<rparr>"
    using analyze_fallback [of "file" e buffer P]
    by (auto simp: fallbackMetadata_def extensionOf_suffix)
  have normal: "errors r = None \<and>
        category r = determineFileCategory (effectiveMime detectedType other) (file_name other)"
    if "file_arrayBuffer other = Inr bytes" "fileTypeFromBuffer Q bytes = Inr detectedType"
      "analyzeFileEnhanced Q other = Resolved r"
    using analyze_normal_result [OF that] by auto
  from analyze_not_Rejected [of P "file" t] settles fallback normal show ?thesis by blast
qed

theorem outer_boundary_witness:
  "analyzeFileEnhanced failingPlatform unreadableFile =
     Resolved \<lparr>metadata =
                 [(''name'', Str ''lost.BIN''),
                  (''size'', num 7),
                  (''type'', Str ''application/octet-stream''),
                  (''lastModified'', DateV 1700000000000),
                  (''extension'', Str ''bin''),
                  (''mimeType'', Str ''application/octet-stream'')],
               preview = None, thumbnail = None, category = CatOther,
               errors = Some [''Failed to analyze file: The requested file could not be read''],
               warnings = None\<rparr>
   \<and> parseBuffer failingPlatform [0x00, 0x00, 0x00, 0x00] (file_type flacFile) (file_size flacFile)
       = Inl (Error ''Failed to determine audio format'')
   \<and> map_outcome errors (analyzeFileEnhanced failingPlatform flacFile) = Resolved None
   \<and> map_outcome category (analyzeFileEnhanced failingPlatform flacFile) = Resolved CatAudio"
proof -
  let ?buffer = "[0x00, 0x00, 0x00, 0x00] :: byte list"
  have unreadable: "file_arrayBuffer unreadableFile = Inl (Error ''The requested file could not be read'')"
    by (simp add: unreadableFile_def)
  have signals: "imageSignal failingPlatform unreadableFile \<noteq> ImageSilent"
    "videoSignal failingPlatform unreadableFile \<noteq> VideoSilent"
    by (simp_all add: failingPlatform_def samplePlatform_def)
  have suffix: "toLowerCase (filenameSuffix (file_name unreadableFile)) = ''bin''"
    by (simp add: unreadableFile_def filenameSuffix_def toLowerCase_def char_eval)
  have buf: "file_arrayBuffer flacFile = Inr ?buffer"
    by (simp add: flacFile_def)
  have det: "fileTypeFromBuffer failingPlatform ?buffer = Inr None"
    by (simp add: failingPlatform_def samplePlatform_def)
  have cat: "determineFileCategory (effectiveMime None flacFile) (file_name flacFile) = CatAudio"
    by (simp add: flacFile_def classify_eval)
  have thrown: "parseBuffer failingPlatform ?buffer (file_type flacFile) (file_size flacFile)
      = Inl (Error ''Failed to determine audio format'')"
    by (simp add: failingPlatform_def samplePlatform_def)
  have "analyzeFileEnhanced failingPlatform flacFile \<noteq> Pending"
    by (simp add: analyze_pending [OF buf det] cat)
  then obtain s where s: "analyzeFileEnhanced failingPlatform flacFile = Resolved s"
    using analyze_not_Rejected [of failingPlatform flacFile]
    by (cases "analyzeFileEnhanced failingPlatform flacFile") auto
  note inst = outer_boundary [of failingPlatform unreadableFile _
      "Error ''The requested file could not be read''" "[]" flacFile ?buffer failingPlatform
      None s]
  from inst signals obtain r where "analyzeFileEnhanced failingPlatform unreadableFile = Resolved r"
    by blast
  moreover from inst unreadable have "analyzeFileEnhanced failingPlatform unreadableFile =
          Resolved \<lparr>metadata =
                      [(''name'', Str (file_name unreadableFile)),
                       (''size'', num (file_size unreadableFile)),
                       (''type'', Str (file_type unreadableFile)),
                       (''lastModified'', DateV (file_lastModified unreadableFile)),
                       (''extension'', Str (toLowerCase (filenameSuffix (file_name unreadableFile)))),
                       (''mimeType'', Str (file_type unreadableFile))],
                    preview = None, thumbnail = None, category = CatOther,
                    errors = Some [''Failed to analyze file: '' @
                       errorMessage (Error ''The requested file could not be read'')],
                    warnings = None\<rparr>"
    by blast
  ultimately have first: "analyzeFileEnhanced failingPlatform unreadableFile =
     Resolved \<lparr>metadata =
                 [(''name'', Str ''lost.BIN''),
                  (''size'', num 7),
                  (''type'', Str ''application/octet-stream''),
                  (''lastModified'', DateV 1700000000000),
                  (''extension'', Str ''bin''),
                  (''mimeType'', Str ''application/octet-stream'')],
               preview = None, thumbnail = None, category = CatOther,
               errors = Some [''Failed to analyze file: The requested file could not be read''],
               warnings = None\<rparr>"
    by (simp add: suffix errorMessage_def) (simp add: unreadableFile_def)
  from inst buf det s have "errors s = None" and "category s = CatAudio"
    by (simp_all add: cat)
  with s have "map_outcome errors (analyzeFileEnhanced failingPlatform flacFile) = Resolved None"
    and "map_outcome category (analyzeFileEnhanced failingPlatform flacFile) = Resolved CatAudio"
    by simp_all
  with first thrown show ?thesis by blast
qed

text \<open>
  The claim as stated fails twice. A video file whose element never answers leaves the
  promise pending: the source waits for \<^verbatim>\<open>onloadedmetadata\<close> or \<^verbatim>\<open>onerror\<close> with no
  timeout. And an error thrown inside an extractor, here by the audio parser, is caught
  there: the result keeps the category audio and has no errors list.
\<close>

theorem outer_boundary_counterexample:
  "analyzeFileEnhanced samplePlatform clipFile = Pending
   \<and> parseBuffer samplePlatform [0x00, 0x00, 0x00, 0x00] (file_type flacFile) (file_size flacFile) =
       Inl (Error ''Failed to determine audio format'')
   \<and> map_outcome category (analyzeFileEnhanced samplePlatform flacFile) = Resolved CatAudio
   \<and> map_outcome errors (analyzeFileEnhanced samplePlatform flacFile) = Resolved None"
proof -
  have clipBuf: "file_arrayBuffer clipFile = Inr [0x00]"
    by (simp add: clipFile_def)
  have clipDet: "fileTypeFromBuffer samplePlatform [0x00] = Inr None"
    by (simp add: samplePlatform_def)
  have clipCat: "determineFileCategory (effectiveMime None clipFile) (file_name clipFile) = CatVideo"
    by (simp add: clipFile_def effectiveMime_def determineFileCategory_def startsWith_def)
  have silent: "videoSignal samplePlatform clipFile = VideoSilent"
    by (simp add: samplePlatform_def)
  have pending: "analyzeFileEnhanced samplePlatform clipFile = Pending"
    by (simp add: analyze_pending [OF clipBuf clipDet] clipCat silent)
  let ?buffer = "[0x00, 0x00, 0x00, 0x00] :: byte list"
  have buf: "file_arrayBuffer flacFile = Inr ?buffer"
    by (simp add: flacFile_def)
  have det: "fileTypeFromBuffer samplePlatform ?buffer = Inr None"
    by (simp add: samplePlatform_def)
  have cat: "determineFileCategory (effectiveMime None flacFile) (file_name flacFile) = CatAudio"
    by (simp add: flacFile_def classify_eval)
  have thrown: "parseBuffer samplePlatform ?buffer (file_type flacFile) (file_size flacFile)
      = Inl (Error ''Failed to determine audio format'')"
    by (simp add: samplePlatform_def)
  have "analyzeFileEnhanced samplePlatform flacFile \<noteq> Pending"
    by (simp add: analyze_pending [OF buf det] cat)
  then obtain r where r: "analyzeFileEnhanced samplePlatform flacFile = Resolved r"
    using analyze_not_Rejected [of samplePlatform flacFile]
    by (cases "analyzeFileEnhanced samplePlatform flacFile") auto
  from analyze_normal_result [OF buf det r] have "category r = CatAudio" "errors r = None"
    by (auto simp: cat)
  with r pending thrown show ?thesis by simp
qed

section \<open>Claims about the extractors\<close>

text \<open>
  Claim C4. None of the five extractors (image, audio, video, document, text) rejects,
  whatever the file, the buffer, the base metadata and the platform. What an extractor
  returns is the base metadata itself or the base metadata extended by the properties of
  its category. When the audio parser throws, the audio extractor returns the base
  metadata with no album art; likewise the image extractor when the EXIF parser throws,
  the video extractor on the error event and the document extractor when loading the PDF
  throws. For an audio file whose parser throws, the assembler still returns a result of
  category audio, with the base metadata and no errors.
\<close>

theorem extractors_never_raise:
  "extractEnhancedImageMetadata P file buffer base \<noteq> Rejected t
   \<and> extractEnhancedAudioMetadata P file buffer base \<noteq> Rejected t
   \<and> extractEnhancedVideoMetadata P file base \<noteq> Rejected t
   \<and> extractAdvancedDocumentMetadata P file buffer base \<noteq> Rejected t
   \<and> extractTextMetadata file buffer base \<noteq> Rejected t
   \<and> (extractEnhancedImageMetadata P file buffer base = Resolved md \<longrightarrow>
        extends base imageFields md)
   \<and> (extractEnhancedAudioMetadata P file buffer base = Resolved (md, art) \<longrightarrow>
        extends base audioFields md)
   \<and> (extractEnhancedVideoMetadata P file base = Resolved md \<longrightarrow>
        extends base videoFields md)
   \<and> (extractAdvancedDocumentMetadata P file buffer base = Resolved md \<longrightarrow>
        extends base documentFields md)
   \<and> (extractTextMetadata file buffer base = Resolved stats \<longrightarrow>
        extends base textFields stats)
   \<and> (parseBuffer P buffer (file_type file) (file_size file) = Inl e \<longrightarrow>
        extractEnhancedAudioMetadata P file buffer base = Resolved (base, None))
   \<and> (parseExif P buffer = Inl e \<longrightarrow> imageSignal P file \<noteq> ImageSilent \<longrightarrow>
        extractEnhancedImageMetadata P file buffer base = Resolved base)
   \<and> (videoSignal P file = VideoError \<longrightarrow>
        extractEnhancedVideoMetadata P file base = Resolved base)
   \<and> (loadPdf P buffer = Inl e \<longrightarrow>
        extractAdvancedDocumentMetadata P file buffer base = Resolved base)
   \<and> (file_arrayBuffer file = Inr buffer \<longrightarrow> fileTypeFromBuffer P buffer = Inr detectedType \<longrightarrow>
        determineFileCategory (effectiveMime detectedType file) (file_name file) = CatAudio \<longrightarrow>
        parseBuffer P buffer (file_type file) (file_size file) = Inl e \<longrightarrow>
        analyzeFileEnhanced P file =
          Resolved \<lparr>metadata =
                      baseMetadataOf file detectedType (calculateChecksum (digestMD5 P) buffer)
                        (extractRawHeader buffer 64),
                    preview = Some (previewURL P), thumbnail = None, category = CatAudio,
                    errors = None,
                    warnings = nonEmptyOrUndefined (typeWarnings detectedType file [])\<rparr>)"
proof -
  have pipeline: "file_arrayBuffer file = Inr buffer \<longrightarrow> fileTypeFromBuffer P buffer = Inr detectedType \<longrightarrow>
        determineFileCategory (effectiveMime detectedType file) (file_name file) = CatAudio \<longrightarrow>
        parseBuffer P buffer (file_type file) (file_size file) = Inl e \<longrightarrow>
        analyzeFileEnhanced P file =
          Resolved \<lparr>metadata =
                      baseMetadataOf file detectedType (calculateChecksum (digestMD5 P) buffer)
                        (extractRawHeader buffer 64),
                    preview = Some (previewURL P), thumbnail = None, category = CatAudio,
                    errors = None,
                    warnings = nonEmptyOrUndefined (typeWarnings detectedType file [])\<rparr>"
  proof (intro impI)
    assume buf: "file_arrayBuffer file = Inr buffer"
      and det: "fileTypeFromBuffer P buffer = Inr detectedType"
      and cat: "determineFileCategory (effectiveMime detectedType file) (file_name file) = CatAudio"
      and thrown: "parseBuffer P buffer (file_type file) (file_size file) = Inl e"
    show "analyzeFileEnhanced P file =
          Resolved \<lparr>metadata =
                      baseMetadataOf file detectedType (calculateChecksum (digestMD5 P) buffer)
                        (extractRawHeader buffer 64),
                    preview = Some (previewURL P), thumbnail = None, category = CatAudio,
                    errors = None,
                    warnings = nonEmptyOrUndefined (typeWarnings detectedType file [])\<rparr>"
      by (simp add: analyze_normal_path [OF buf det] cat extractByCategory_def
          audio_parse_throws [OF thrown])
  qed
  from image_not_Rejected [of P "file" buffer base t]
    audio_not_Rejected [of P "file" buffer base t]
    video_not_Rejected [of P "file" base t]
    document_not_Rejected [of P "file" buffer base t]
    text_not_Rejected [of "file" buffer base t]
    image_shape [of P "file" buffer base md]
    audio_shape [of P "file" buffer base md art]
    video_shape [of P "file" base md]
    document_shape [of P "file" buffer base md]
    text_shape [of "file" buffer base stats]
    audio_parse_throws [of P buffer "file" e base]
    image_exif_throws [of P buffer e "file" base]
    video_error [of P "file" base]
    document_load_throws [of P buffer e "file" base]
    pipeline
  show ?thesis by blast
qed

theorem extractors_never_raise_witness:
  "extractEnhancedAudioMetadata failingPlatform flacFile [0x00, 0x00, 0x00, 0x00] [] =
     Resolved ([], None)
   \<and> extractEnhancedImageMetadata failingPlatform flacFile [0x00, 0x00, 0x00, 0x00] [] = Resolved []
   \<and> extractEnhancedVideoMetadata failingPlatform flacFile [] = Resolved []
   \<and> extractAdvancedDocumentMetadata failingPlatform flacFile [0x00, 0x00, 0x00, 0x00] [] = Resolved []
   \<and> extends [] imageFields [] \<and> extends [] audioFields []
   \<and> extends [] videoFields [] \<and> extends [] documentFields []
   \<and> extends [] textFields
        (spread []
          [(''charset'', Str ''UTF-8''), (''lineEndings'', Str ''unknown''), (''bom'', Bool False),
           (''wordCount'', num 1), (''lineCount'', num 1), (''characterCount'', num 4)])
   \<and> map_outcome category (analyzeFileEnhanced failingPlatform flacFile) = Resolved CatAudio
   \<and> map_outcome errors (analyzeFileEnhanced failingPlatform flacFile) = Resolved None"
proof -
  let ?buffer = "[0x00, 0x00, 0x00, 0x00] :: byte list"
  let ?stats = "spread []
          [(''charset'', Str ''UTF-8''), (''lineEndings'', Str ''unknown''), (''bom'', Bool False),
           (''wordCount'', num 1), (''lineCount'', num 1), (''characterCount'', num 4)]"
  have buf: "file_arrayBuffer flacFile = Inr ?buffer"
    by (simp add: flacFile_def)
  have det: "fileTypeFromBuffer failingPlatform ?buffer = Inr None"
    by (simp add: failingPlatform_def samplePlatform_def)
  have cat: "determineFileCategory (effectiveMime None flacFile) (file_name flacFile) = CatAudio"
    by (simp add: flacFile_def classify_eval)
  have audio: "parseBuffer failingPlatform ?buffer (file_type flacFile) (file_size flacFile)
      = Inl (Error ''Failed to determine audio format'')"
    by (simp add: failingPlatform_def samplePlatform_def)
  have exif: "parseExif failingPlatform ?buffer = Inl (Error ''Unknown file format'')"
    by (simp add: failingPlatform_def samplePlatform_def)
  have image: "imageSignal failingPlatform flacFile \<noteq> ImageSilent"
    by (simp add: failingPlatform_def samplePlatform_def)
  have video: "videoSignal failingPlatform flacFile = VideoError"
    by (simp add: failingPlatform_def samplePlatform_def)
  have pdf: "loadPdf failingPlatform ?buffer = Inl (Error ''No PDF header found'')"
    by (simp add: failingPlatform_def samplePlatform_def)
  have decoded: "extractTextMetadata flacFile ?buffer [] = Resolved ?stats"
    by (simp add: text_eval)
  note audioInst = extractors_never_raise [of failingPlatform flacFile ?buffer "[]" _ "[]" None
      ?stats "Error ''Failed to determine audio format''" None]
  note exifInst = extractors_never_raise [of failingPlatform flacFile ?buffer "[]" _ "[]" None
      ?stats "Error ''Unknown file format''" None]
  note pdfInst = extractors_never_raise [of failingPlatform flacFile ?buffer "[]" _ "[]" None
      ?stats "Error ''No PDF header found''" None]
  have a: "extractEnhancedAudioMetadata failingPlatform flacFile ?buffer [] = Resolved ([], None)"
    using audioInst audio by blast
  have i: "extractEnhancedImageMetadata failingPlatform flacFile ?buffer [] = Resolved []"
    using exifInst exif image by blast
  have v: "extractEnhancedVideoMetadata failingPlatform flacFile [] = Resolved []"
    using audioInst video by blast
  have d: "extractAdvancedDocumentMetadata failingPlatform flacFile ?buffer [] = Resolved []"
    using pdfInst pdf by blast
  have shapes: "extends [] imageFields []" "extends [] audioFields []"
    "extends [] videoFields []" "extends [] documentFields []" "extends [] textFields ?stats"
    using audioInst a i v d decoded by blast+
  have "analyzeFileEnhanced failingPlatform flacFile =
          Resolved \<lparr>metadata =
                      baseMetadataOf flacFile None
                        (calculateChecksum (digestMD5 failingPlatform) ?buffer)
                        (extractRawHeader ?buffer 64),
                    preview = Some (previewURL failingPlatform), thumbnail = None,
                    category = CatAudio, errors = None,
                    warnings = nonEmptyOrUndefined (typeWarnings None flacFile [])\<rparr>"
    using audioInst buf det cat audio by blast
  then have "map_outcome category (analyzeFileEnhanced failingPlatform flacFile) = Resolved CatAudio"
    and "map_outcome errors (analyzeFileEnhanced failingPlatform flacFile) = Resolved None"
    by simp_all
  with a i v d shapes show ?thesis by blast
qed

text \<open>
  Claim C8. In every run in which the base metadata is built (the buffer is read and the
  sniffer returns), every property of the base metadata is a property of the metadata of
  the result, with the same value: the record returned is the base record itself or the
  base record extended by the properties of the category, and no such property has the
  name of a base property.
\<close>

theorem base_metadata_preserved:
  "(file_arrayBuffer file = Inr buffer \<longrightarrow> fileTypeFromBuffer P buffer = Inr detectedType \<longrightarrow>
      analyzeFileEnhanced P file = Resolved r \<longrightarrow>
      (k, v) \<in> set (baseMetadataOf file detectedType (calculateChecksum (digestMD5 P) buffer)
                      (extractRawHeader buffer 64)) \<longrightarrow>
      map_of (metadata r) k = Some v)
   \<and> (file_arrayBuffer file = Inr buffer \<longrightarrow> fileTypeFromBuffer P buffer = Inr detectedType \<longrightarrow>
      analyzeFileEnhanced P file = Resolved r \<longrightarrow>
      extends (baseMetadataOf file detectedType (calculateChecksum (digestMD5 P) buffer)
                 (extractRawHeader buffer 64))
        (fieldsOf (category r)) (metadata r))
   \<and> map fst (baseMetadataOf file detectedType checksum rawHeader) = baseFields
   \<and> set baseFields \<inter> set (fieldsOf c) = {}"
proof -
  let ?base = "baseMetadataOf file detectedType (calculateChecksum (digestMD5 P) buffer)
                 (extractRawHeader buffer 64)"
  have shape: "extends ?base (fieldsOf (category r)) (metadata r)"
    if "file_arrayBuffer file = Inr buffer" "fileTypeFromBuffer P buffer = Inr detectedType"
      "analyzeFileEnhanced P file = Resolved r"
    using analyze_normal_result [OF that] extractByCategory_shape by fastforce
  have kept: "map_of (metadata r) k = Some v"
    if run: "file_arrayBuffer file = Inr buffer" "fileTypeFromBuffer P buffer = Inr detectedType"
      "analyzeFileEnhanced P file = Resolved r"
      and mem: "(k, v) \<in> set ?base"
  proof -
    have "k \<notin> set (fieldsOf (category r))"
      using baseMetadataOf_lookup(1) [OF mem] by (rule base_fields_apart)
    with shape [OF run] have "map_of (metadata r) k = map_of ?base k"
      by (rule extends_preserves)
    then show ?thesis using baseMetadataOf_lookup(2) [OF mem] by simp
  qed
  have apart: "set baseFields \<inter> set (fieldsOf c) = {}"
    using base_fields_apart by blast
  from shape kept apart baseMetadataOf_names [of "file" detectedType checksum rawHeader]
  show ?thesis by blast
qed

theorem base_metadata_preserved_witness:
  "map_outcome (\<lambda>r. map_of (metadata r) ''name'') (analyzeFileEnhanced samplePlatform photoAsText)
     = Resolved (Some (Str ''photo.txt''))
   \<and> map_outcome (\<lambda>r. map_of (metadata r) ''detectedMimeType'')
        (analyzeFileEnhanced samplePlatform photoAsText)
     = Resolved (Some (Str ''image/jpeg''))
   \<and> map_outcome (\<lambda>r. extends
          (baseMetadataOf photoAsText (Some \<lparr>mime = ''image/jpeg'', ext = ''jpg''\<rparr>)
             (calculateChecksum (digestMD5 samplePlatform) jfifBytes)
             (extractRawHeader jfifBytes 64))
          imageFields (metadata r))
        (analyzeFileEnhanced samplePlatform photoAsText)
     = Resolved True"
proof -
  let ?d = "\<lparr>mime = ''image/jpeg'', ext = ''jpg''\<rparr>"
  let ?base = "baseMetadataOf photoAsText (Some ?d)
             (calculateChecksum (digestMD5 samplePlatform) jfifBytes)
             (extractRawHeader jfifBytes 64)"
  have buf: "file_arrayBuffer photoAsText = Inr jfifBytes"
    by (simp add: photoAsText_def)
  have sig: "imageSignal samplePlatform photoAsText = ImageLoaded 1 1"
    by (simp add: samplePlatform_def)
  have cat: "determineFileCategory (effectiveMime (Some ?d) photoAsText) (file_name photoAsText) = CatImage"
    by (simp add: effectiveMime_def determineFileCategory_def startsWith_def)
  have "analyzeFileEnhanced samplePlatform photoAsText \<noteq> Pending"
    by (simp add: analyze_pending [OF buf sample_sniff_jpeg] cat sig)
  then obtain r where r: "analyzeFileEnhanced samplePlatform photoAsText = Resolved r"
    using analyze_not_Rejected [of samplePlatform photoAsText]
    by (cases "analyzeFileEnhanced samplePlatform photoAsText") auto
  have rcat: "category r = CatImage"
    using analyze_category [OF buf sample_sniff_jpeg r] cat by simp
  have name: "(''name'', Str ''photo.txt'') \<in> set ?base"
    by (simp add: baseMetadataOf_def photoAsText_def)
  have detected: "(''detectedMimeType'', Str ''image/jpeg'') \<in> set ?base"
    by (simp add: baseMetadataOf_def)
  have "map_of (metadata r) ''name'' = Some (Str ''photo.txt'')"
    using base_metadata_preserved [of photoAsText jfifBytes samplePlatform "Some ?d" r
        "''name''" "Str ''photo.txt''"] buf sample_sniff_jpeg r name
    by blast
  moreover have "map_of (metadata r) ''detectedMimeType'' = Some (Str ''image/jpeg'')"
    using base_metadata_preserved [of photoAsText jfifBytes samplePlatform "Some ?d" r
        "''detectedMimeType''" "Str ''image/jpeg''"] buf sample_sniff_jpeg r detected
    by blast
  moreover have "extends ?base (fieldsOf (category r)) (metadata r)"
    using base_metadata_preserved [of photoAsText jfifBytes samplePlatform "Some ?d" r
        "''name''" "Str ''photo.txt''"] buf sample_sniff_jpeg r
    by blast
  ultimately show ?thesis using r rcat by (simp add: fieldsOf_def)
qed

text \<open>
  Claim C10. The marker-segment analysis runs only for a file whose declared MIME type is
  \<open>image/jpeg\<close> or whose lower-cased extension is \<open>jpg\<close> or \<open>jpeg\<close>. A file whose bytes
  sniff as JPEG but whose declared type and extension say otherwise is classified as an
  image, and its metadata has neither a jfif nor an encoding block; the same holds for
  every file classified as an image behind the closed gate. Behind the open gate, when
  the EXIF parser returns, the two blocks are those of \<open>analyzeJPEGStructure\<close>.
\<close>

theorem jpeg_analysis_gate:
  "(file_arrayBuffer file = Inr buffer \<longrightarrow> fileTypeFromBuffer P buffer = Inr (Some d) \<longrightarrow>
      mime d = ''image/jpeg'' \<longrightarrow>
      file_type file \<noteq> ''image/jpeg'' \<longrightarrow>
      extensionOf (file_name file) \<noteq> ''jpg'' \<longrightarrow> extensionOf (file_name file) \<noteq> ''jpeg'' \<longrightarrow>
      analyzeFileEnhanced P file = Resolved r \<longrightarrow>
      category r = CatImage \<and>
      getProp (metadata r) ''jfif'' = Undefined \<and> getProp (metadata r) ''encoding'' = Undefined)
   \<and> (file_arrayBuffer jpg = Inr bytes \<longrightarrow> fileTypeFromBuffer Q bytes = Inr found \<longrightarrow>
      determineFileCategory (effectiveMime found jpg) (file_name jpg) = CatImage \<longrightarrow>
      file_type jpg \<noteq> ''image/jpeg'' \<longrightarrow>
      extensionOf (file_name jpg) \<noteq> ''jpg'' \<longrightarrow> extensionOf (file_name jpg) \<noteq> ''jpeg'' \<longrightarrow>
      analyzeFileEnhanced Q jpg = Resolved s \<longrightarrow>
      getProp (metadata s) ''jfif'' = Undefined \<and> getProp (metadata s) ''encoding'' = Undefined)
   \<and> (file_arrayBuffer img = Inr content \<longrightarrow> fileTypeFromBuffer R content = Inr sniffed \<longrightarrow>
      determineFileCategory (effectiveMime sniffed img) (file_name img) = CatImage \<longrightarrow>
      (file_type img = ''image/jpeg'' \<or> extensionOf (file_name img) = ''jpg''
         \<or> extensionOf (file_name img) = ''jpeg'') \<longrightarrow>
      parseExif R content = Inr tags \<longrightarrow>
      analyzeFileEnhanced R img = Resolved u \<longrightarrow>
      getProp (metadata u) ''jfif'' = getProp (analyzeJPEGStructure content) ''jfif'' \<and>
      getProp (metadata u) ''encoding'' = getProp (analyzeJPEGStructure content) ''encoding'')"
proof -
  have closed: "getProp (metadata s) ''jfif'' = Undefined \<and> getProp (metadata s) ''encoding'' = Undefined"
    if run: "file_arrayBuffer jpg = Inr bytes" "fileTypeFromBuffer Q bytes = Inr found"
      "determineFileCategory (effectiveMime found jpg) (file_name jpg) = CatImage"
      "analyzeFileEnhanced Q jpg = Resolved s"
      and gate: "file_type jpg \<noteq> ''image/jpeg''" "extensionOf (file_name jpg) \<noteq> ''jpg''"
        "extensionOf (file_name jpg) \<noteq> ''jpeg''"
    for jpg bytes Q found s
    by (rule image_gate_closed [OF analyze_image_metadata [OF run]])
       (simp_all add: base_has_no_jpeg_blocks gate)
  have sniffed: "determineFileCategory (effectiveMime (Some d) file) (file_name file) = CatImage"
    if "mime d = ''image/jpeg''"
    using that by (simp add: effectiveMime_def determineFileCategory_def startsWith_def)
  have first: "category r = CatImage \<and>
      getProp (metadata r) ''jfif'' = Undefined \<and> getProp (metadata r) ''encoding'' = Undefined"
    if run: "file_arrayBuffer file = Inr buffer" "fileTypeFromBuffer P buffer = Inr (Some d)"
      "analyzeFileEnhanced P file = Resolved r"
      and m: "mime d = ''image/jpeg''"
      and gate: "file_type file \<noteq> ''image/jpeg''" "extensionOf (file_name file) \<noteq> ''jpg''"
        "extensionOf (file_name file) \<noteq> ''jpeg''"
    using analyze_category [OF run] sniffed [OF m] closed [OF run(1,2) sniffed [OF m] run(3) gate]
    by simp
  have opened: "getProp (metadata u) ''jfif'' = getProp (analyzeJPEGStructure content) ''jfif'' \<and>
      getProp (metadata u) ''encoding'' = getProp (analyzeJPEGStructure content) ''encoding''"
    if run: "file_arrayBuffer img = Inr content" "fileTypeFromBuffer R content = Inr sniffed"
      "determineFileCategory (effectiveMime sniffed img) (file_name img) = CatImage"
      "analyzeFileEnhanced R img = Resolved u"
      and exif: "parseExif R content = Inr tags"
      and gate: "file_type img = ''image/jpeg'' \<or> extensionOf (file_name img) = ''jpg''
         \<or> extensionOf (file_name img) = ''jpeg''"
    by (rule image_gate_open [OF analyze_image_metadata [OF run] exif])
       (simp add: base_has_no_jpeg_blocks gate)
  from first closed opened show ?thesis by blast
qed

theorem jpeg_analysis_gate_witness:
  "map_outcome category (analyzeFileEnhanced samplePlatform photoAsText) = Resolved CatImage
   \<and> map_outcome (\<lambda>r. getProp (metadata r) ''jfif'')
        (analyzeFileEnhanced samplePlatform photoAsText) = Resolved Undefined
   \<and> map_outcome (\<lambda>r. getProp (metadata r) ''encoding'')
        (analyzeFileEnhanced samplePlatform photoAsText) = Resolved Undefined
   \<and> map_outcome (\<lambda>r. getProp (metadata r) ''jfif'')
        (analyzeFileEnhanced samplePlatform untypedPhoto) =
       Resolved (Obj [(''version'', Str ''1.01''), (''resolutionUnit'', Str ''inches''),
                      (''xResolution'', num 72), (''yResolution'', num 72)])
   \<and> map_outcome (\<lambda>r. getProp (metadata r) ''encoding'')
        (analyzeFileEnhanced samplePlatform untypedPhoto) = Resolved (Obj [])"
proof -
  let ?d = "\<lparr>mime = ''image/jpeg'', ext = ''jpg''\<rparr>"
  have buf: "file_arrayBuffer photoAsText = Inr jfifBytes"
    by (simp add: photoAsText_def)
  have sig: "imageSignal samplePlatform photoAsText = ImageLoaded 1 1"
    by (simp add: samplePlatform_def)
  have cat: "determineFileCategory (effectiveMime (Some ?d) photoAsText) (file_name photoAsText) = CatImage"
    by (simp add: effectiveMime_def determineFileCategory_def startsWith_def)
  have "analyzeFileEnhanced samplePlatform photoAsText \<noteq> Pending"
    by (simp add: analyze_pending [OF buf sample_sniff_jpeg] cat sig)
  then obtain r where r: "analyzeFileEnhanced samplePlatform photoAsText = Resolved r"
    using analyze_not_Rejected [of samplePlatform photoAsText]
    by (cases "analyzeFileEnhanced samplePlatform photoAsText") auto
  have gate: "file_type photoAsText \<noteq> ''image/jpeg''"
    "extensionOf (file_name photoAsText) \<noteq> ''jpg''"
    "extensionOf (file_name photoAsText) \<noteq> ''jpeg''"
    by (simp_all add: photoAsText_def classify_eval)
  have buf2: "file_arrayBuffer untypedPhoto = Inr jfifBytes"
    by (simp add: untypedPhoto_def)
  have sig2: "imageSignal samplePlatform untypedPhoto = ImageLoaded 1 1"
    by (simp add: samplePlatform_def)
  have cat2: "determineFileCategory (effectiveMime (Some ?d) untypedPhoto) (file_name untypedPhoto) = CatImage"
    by (simp add: effectiveMime_def determineFileCategory_def startsWith_def)
  have "analyzeFileEnhanced samplePlatform untypedPhoto \<noteq> Pending"
    by (simp add: analyze_pending [OF buf2 sample_sniff_jpeg] cat2 sig2)
  then obtain u where u: "analyzeFileEnhanced samplePlatform untypedPhoto = Resolved u"
    using analyze_not_Rejected [of samplePlatform untypedPhoto]
    by (cases "analyzeFileEnhanced samplePlatform untypedPhoto") auto
  have gate2: "extensionOf (file_name untypedPhoto) = ''jpg''"
    by (simp add: untypedPhoto_def classify_eval)
  have exif: "parseExif samplePlatform jfifBytes = Inr None"
    by (simp add: samplePlatform_def)
  have blocks: "getProp (analyzeJPEGStructure jfifBytes) ''jfif'' =
       Obj [(''version'', Str ''1.01''), (''resolutionUnit'', Str ''inches''),
            (''xResolution'', num 72), (''yResolution'', num 72)]"
    "getProp (analyzeJPEGStructure jfifBytes) ''encoding'' = Obj []"
    by (simp_all add: jfifBytes_def analyzeJPEGStructure_def scanSegments.simps jpeg_eval
        getProp_def num_def)
  note inst = jpeg_analysis_gate [of photoAsText jfifBytes samplePlatform ?d r
      photoAsText jfifBytes samplePlatform "Some ?d" r
      untypedPhoto jfifBytes samplePlatform "Some ?d" None u]
  have "category r = CatImage \<and> getProp (metadata r) ''jfif'' = Undefined
      \<and> getProp (metadata r) ''encoding'' = Undefined"
    using inst buf sample_sniff_jpeg gate r by simp
  moreover have "getProp (metadata u) ''jfif'' = getProp (analyzeJPEGStructure jfifBytes) ''jfif''
      \<and> getProp (metadata u) ''encoding'' = getProp (analyzeJPEGStructure jfifBytes) ''encoding''"
    using inst buf2 sample_sniff_jpeg cat2 gate2 exif u by blast
  ultimately show ?thesis using r u blocks by simp
qed

end
